theory Spec2Isabelle
  imports Main "HOL-Library.Word" "HOL-Library.Char_ord" "HOL-Library.List_Lexorder"
begin

section \<open>hub-scrub: pruning old image tags from a registry account\<close>

text \<open>
  The program is \<^verbatim>\<open>cmd/hub-scrub/main.go\<close>: it logs in, lists the tags of an image
  page by page (\<^verbatim>\<open>List\<close>), and deletes every tag older than a threshold (the loop at
  the end of \<^verbatim>\<open>main\<close>).

  The functions of the repository are embedded as HOL functions. What they call in the
  Go standard library (\<^verbatim>\<open>net/http\<close>, \<^verbatim>\<open>encoding/json\<close>, \<^verbatim>\<open>time\<close>) is not part of the
  repository; it is the record \<open>env\<close> below, one field per library entry point, and the
  theorems about \<^verbatim>\<open>List\<close> and \<^verbatim>\<open>main\<close> hold for every such record. The outside world
  (the registry and the clock) is a state of an arbitrary type \<open>'w\<close> that each call
  reads and replaces.
\<close>

subsection \<open>Values\<close>

text \<open>A Go \<^verbatim>\<open>error\<close> is represented by its message.\<close>

type_synonym error = string

text \<open>
  \<^verbatim>\<open>time.Time\<close>: an instant, in nanoseconds relative to the Unix epoch.
  \<^verbatim>\<open>time.Duration\<close>: a signed 64-bit count of nanoseconds.
\<close>

type_synonym time = int
type_synonym duration = "64 word"

datatype verb = GET | POST | DELETE

record 'b request =
  req_verb :: verb
  req_url :: string
  req_header :: "(string \<times> string) list"
  req_body :: "'b option"

text \<open>
  An \<^verbatim>\<open>http.Response\<close>: the status code and the body. The body is a stream in Go;
  here it is what \<^verbatim>\<open>ioutil.ReadAll\<close> returns for it, an error or the bytes.
\<close>

record 'b response =
  StatusCode :: int
  Body :: "error + 'b"

record AuthenticationResponse =
  Token :: string

record 'u Page =
  Count :: int
  Next :: string
  Previous :: string
  Results :: "'u list"

text \<open>\<^verbatim>\<open>type Time struct { time.Time }\<close> wraps an instant, so \<open>LastUpdated\<close> is one.\<close>

record Tag =
  Name :: string
  LastUpdated :: time

type_synonym TagList = "Tag list"

record flags =
  username :: string
  password :: string
  image :: string
  thresholdStr :: string

subsection \<open>The standard library and the outside world\<close>

text \<open>
  \<open>'w\<close> is the state of the world, \<open>'b\<close> the type of byte strings (request and response
  bodies), \<open>'u\<close> the type of untyped JSON values (\<^verbatim>\<open>interface{}\<close>) and \<open>'r\<close> the type of
  the collection that the caller of \<^verbatim>\<open>List\<close> passes by pointer.
  \<^verbatim>\<open>json.Unmarshal\<close> appears once for each target type the program decodes into; for
  the caller's collection it receives the current content and returns the new one
  together with the error, since Go's decoder writes into the target as it goes.
\<close>

record ('w, 'b, 'u, 'r) env =
  time_ParseDuration :: "string \<Rightarrow> error + duration"
  time_Now :: "'w \<Rightarrow> time \<times> 'w"
  http_NewRequest :: "verb \<Rightarrow> string \<Rightarrow> error option"
  client_Do :: "'b request \<Rightarrow> 'w \<Rightarrow> (error + 'b response) \<times> 'w"
  json_Marshal_credentials :: "(string \<times> string) list \<Rightarrow> error + 'b"
  json_Unmarshal_AuthenticationResponse :: "'b \<Rightarrow> error + AuthenticationResponse"
  json_Unmarshal_Page :: "'b \<Rightarrow> error + 'u Page"
  json_Marshal :: "'u list \<Rightarrow> error + 'b"
  json_Unmarshal :: "'b \<Rightarrow> 'r \<Rightarrow> error option \<times> 'r"

text \<open>
  \<^verbatim>\<open>Time.Sub\<close>: the difference of two instants as a duration; a difference that does
  not fit is replaced by the largest or smallest duration. \<^verbatim>\<open>time.Since(t)\<close> is
  \<^verbatim>\<open>time.Now().Sub(t)\<close>.
\<close>

definition time_Sub :: "time \<Rightarrow> time \<Rightarrow> duration" where
  "time_Sub t u =
     (if t - u > 2 ^ 63 - 1 then word_of_int (2 ^ 63 - 1)
      else if t - u < - (2 ^ 63) then word_of_int (- (2 ^ 63))
      else word_of_int (t - u))"

definition time_Since :: "('w, 'b, 'u, 'r) env \<Rightarrow> time \<Rightarrow> 'w \<Rightarrow> duration \<times> 'w" where
  "time_Since env t w = (case time_Now env w of (now, w') \<Rightarrow> (time_Sub now t, w'))"

subsection \<open>The state of a run\<close>

text \<open>
  Besides the world, a run has its standard output. Two more fields record what the
  program did, for the properties to speak about: \<open>sent\<close>, the requests handed to
  \<^verbatim>\<open>client.Do\<close> in order, and \<open>open_bodies\<close>, the number of response bodies obtained and
  not closed yet.
\<close>

datatype operand = Str string | Err error | Dur duration | Num int

record ('w, 'b) state =
  world :: 'w
  sent :: "'b request list"
  open_bodies :: nat
  stdout :: "operand list list"

text \<open>\<^verbatim>\<open>fmt.Println(a...)\<close> writes one line.\<close>

definition println :: "operand list \<Rightarrow> ('w, 'b) state \<Rightarrow> ('w, 'b) state" where
  "println line st = st\<lparr>stdout := stdout st @ [line]\<rparr>"

text \<open>\<^verbatim>\<open>client.Do(req)\<close>: a response comes with an open body.\<close>

definition Do :: "('w, 'b, 'u, 'r) env \<Rightarrow> 'b request \<Rightarrow> ('w, 'b) state
    \<Rightarrow> (error + 'b response) \<times> ('w, 'b) state" where
  "Do env req st =
     (case client_Do env req (world st) of
        (Inl err, w) \<Rightarrow> (Inl err, st\<lparr>world := w, sent := sent st @ [req]\<rparr>)
      | (Inr rsp, w) \<Rightarrow>
          (Inr rsp, st\<lparr>world := w, sent := sent st @ [req],
                       open_bodies := Suc (open_bodies st)\<rparr>))"

text \<open>\<^verbatim>\<open>rsp.Body.Close()\<close>.\<close>

definition Body_Close :: "('w, 'b) state \<Rightarrow> ('w, 'b) state" where
  "Body_Close st = st\<lparr>open_bodies := open_bodies st - 1\<rparr>"

text \<open>\<^verbatim>\<open>time.Since(t)\<close> in a run: the clock is read in the current world.\<close>

definition Since :: "('w, 'b, 'u, 'r) env \<Rightarrow> time \<Rightarrow> ('w, 'b) state
    \<Rightarrow> duration \<times> ('w, 'b) state" where
  "Since env t st = (case time_Since env t (world st) of (d, w) \<Rightarrow> (d, st\<lparr>world := w\<rparr>))"

subsection \<open>List\<close>

text \<open>The request built at lines 86 to 92.\<close>

definition list_request :: "string \<Rightarrow> string \<Rightarrow> 'b request" where
  "list_request token url =
     \<lparr>req_verb = GET, req_url = url,
      req_header = [(''Content-Type'', ''application/json''),
                    (''Authorization'', ''JWT '' @ token)],
      req_body = None\<rparr>"

text \<open>
  The loop of lines 81 to 116. It has no bound, so it is a partial function: a walk that
  never reaches an empty URL has the value \<open>None\<close>. The result is the error of the
  \<^verbatim>\<open>return err\<close> that ended the walk, or the accumulated \<^verbatim>\<open>resultsUntyped\<close>.
\<close>

partial_function (option) List_loop ::
  "('w, 'b, 'u, 'r) env \<Rightarrow> string \<Rightarrow> string \<Rightarrow> 'u list \<Rightarrow> ('w, 'b) state
     \<Rightarrow> ((error + 'u list) \<times> ('w, 'b) state) option"
where
  "List_loop env token url resultsUntyped st =
     (if url = [] then Some (Inr resultsUntyped, st)
      else case http_NewRequest env GET url of
        Some err \<Rightarrow> Some (Inl err, st)
      | None \<Rightarrow>
          (case Do env (list_request token url) st of
             (Inl err, st1) \<Rightarrow> Some (Inl err, st1)
           | (Inr rsp, st1) \<Rightarrow>
               (case Body rsp of
                  Inl err \<Rightarrow> Some (Inl err, st1)
                | Inr body \<Rightarrow>
                    (case json_Unmarshal_Page env body of
                       Inl err \<Rightarrow> Some (Inl err, Body_Close st1)
                     | Inr page \<Rightarrow>
                         List_loop env token (Next page) (resultsUntyped @ Results page)
                           (Body_Close st1)))))"

declare List_loop.simps [code]

text \<open>
  \<^verbatim>\<open>List(token, url, results)\<close>: the loop, then lines 118 to 127. The result is the
  returned error (\<open>None\<close> for \<^verbatim>\<open>nil\<close>), the content of \<^verbatim>\<open>results\<close> afterwards, and the
  state.
\<close>

definition List :: "('w, 'b, 'u, 'r) env \<Rightarrow> string \<Rightarrow> string \<Rightarrow> 'r \<Rightarrow> ('w, 'b) state
    \<Rightarrow> (error option \<times> 'r \<times> ('w, 'b) state) option" where
  "List env token url results st =
     (case List_loop env token url [] st of
        None \<Rightarrow> None
      | Some (Inl err, st') \<Rightarrow> Some (Some err, results, st')
      | Some (Inr resultsUntyped, st') \<Rightarrow>
          (case json_Marshal env resultsUntyped of
             Inl err \<Rightarrow> Some (Some err, results, st')
           | Inr resultsRaw \<Rightarrow>
               (case json_Unmarshal env resultsRaw results of
                  (err, results') \<Rightarrow> Some (err, results', st'))))"

subsection \<open>main\<close>

definition login_url :: string where
  "login_url = ''https://hub.docker.com/v2/users/login/''"

definition login_request :: "'b \<Rightarrow> 'b request" where
  "login_request body =
     \<lparr>req_verb = POST, req_url = login_url,
      req_header = [(''Content-Type'', ''application/json'')],
      req_body = Some body\<rparr>"

definition tags_url :: "string \<Rightarrow> string \<Rightarrow> string" where
  "tags_url user img = ''https://hub.docker.com/v2/repositories/'' @ user @ ''/'' @ img @ ''/tags''"

definition tag_url :: "string \<Rightarrow> string \<Rightarrow> string \<Rightarrow> string" where
  "tag_url user img name =
     ''https://hub.docker.com/v2/repositories/'' @ user @ ''/'' @ img @ ''/tags/'' @ name @ ''/''"

definition delete_request :: "string \<Rightarrow> string \<Rightarrow> string \<Rightarrow> string \<Rightarrow> 'b request" where
  "delete_request user img token name =
     \<lparr>req_verb = DELETE, req_url = tag_url user img name,
      req_header = [(''Authorization'', ''JWT '' @ token)],
      req_body = None\<rparr>"

text \<open>
  Lines 149 to 195 of \<^verbatim>\<open>main\<close>: the threshold and the login. The result is the exit code
  of the \<^verbatim>\<open>os.Exit\<close> reached, or the threshold and the authentication response.
\<close>

definition main_authenticate :: "('w, 'b, 'u, 'r) env \<Rightarrow> flags \<Rightarrow> ('w, 'b) state
    \<Rightarrow> (int + duration \<times> AuthenticationResponse) \<times> ('w, 'b) state" where
  "main_authenticate env fl st =
     (case time_ParseDuration env (thresholdStr fl) of
        Inl err \<Rightarrow> (Inl 1, println [Str ''unable to parse threshold:'', Err err] st)
      | Inr threshold \<Rightarrow>
     (case json_Marshal_credentials env
             [(''username'', username fl), (''password'', password fl)] of
        Inl err \<Rightarrow> (Inl 1, println [Str ''unable to marshal authentication credentials''] st)
      | Inr body \<Rightarrow>
     (case http_NewRequest env POST login_url of
        Some err \<Rightarrow>
          (Inl 1, println [Str ''unable to create authentication request:'', Err err] st)
      | None \<Rightarrow>
     (case Do env (login_request body) st of
        (Inl err, st1) \<Rightarrow>
          (Inl 1, println [Str ''unable to authenticate with registry:'', Err err] st1)
      | (Inr rsp, st1) \<Rightarrow>
     (case Body rsp of
        Inl err \<Rightarrow>
          (Inl 1, println [Str ''unable to read authentication response:'', Err err] st1)
      | Inr body' \<Rightarrow>
     (case json_Unmarshal_AuthenticationResponse env body' of
        Inl err \<Rightarrow>
          (Inl 1, println [Str ''unable to unmarshal authentication response:'', Err err]
                    (Body_Close st1))
      | Inr authenticationResponse \<Rightarrow>
          (Inr (threshold, authenticationResponse), Body_Close st1)))))))"

text \<open>
  The loop of lines 205 to 229 over the tags. The result is \<open>Some code\<close> when an
  \<^verbatim>\<open>os.Exit(code)\<close> inside the loop ended the process and \<open>None\<close> when the loop ran to
  its end.
\<close>

fun reap :: "('w, 'b, 'u, 'r) env \<Rightarrow> string \<Rightarrow> string \<Rightarrow> string \<Rightarrow> duration \<Rightarrow> TagList
    \<Rightarrow> ('w, 'b) state \<Rightarrow> int option \<times> ('w, 'b) state" where
  "reap env user img token threshold [] st = (None, st)"
| "reap env user img token threshold (tag # tags) st =
     (case Since env (LastUpdated tag) st of (age, st1) \<Rightarrow>
       (if sint threshold < sint age then
          (case Since env (LastUpdated tag) st1 of (age', st2) \<Rightarrow>
            (let st3 = println [Str ''deleting tag'', Str (Name tag), Str ''age'', Dur age'] st2
             in (case http_NewRequest env DELETE (tag_url user img (Name tag)) of
                   Some err \<Rightarrow>
                     (Some 1, println [Str ''unable to create delete request:'', Err err] st3)
                 | None \<Rightarrow>
                     (case Do env (delete_request user img token (Name tag)) st3 of
                        (Inl err, st4) \<Rightarrow>
                          (Some 1,
                           println [Str ''unable to perform delete request:'', Err err] st4)
                      | (Inr rsp, st4) \<Rightarrow>
                          reap env user img token threshold tags
                            (if StatusCode rsp \<noteq> 204
                             then println
                                    [Str ''unexpected status code'', Num (StatusCode rsp)]
                                    (Body_Close st4)
                             else Body_Close st4)))))
        else reap env user img token threshold tags st1))"

text \<open>
  \<^verbatim>\<open>main\<close>: the exit code of the process and the final state, or \<open>None\<close> when the
  listing never returns.
\<close>

definition main :: "('w, 'b, 'u, TagList) env \<Rightarrow> flags \<Rightarrow> ('w, 'b) state
    \<Rightarrow> (int \<times> ('w, 'b) state) option" where
  "main env fl st =
     (case main_authenticate env fl st of
        (Inl code, st1) \<Rightarrow> Some (code, st1)
      | (Inr (threshold, authenticationResponse), st1) \<Rightarrow>
          (case List env (Token authenticationResponse) (tags_url (username fl) (image fl))
                  [] st1 of
             None \<Rightarrow> None
           | Some (Some err, tags, st2) \<Rightarrow>
               Some (0, println [Str ''unable to list tags:'', Err err] st2)
           | Some (None, tags, st2) \<Rightarrow>
               (case reap env (username fl) (image fl) (Token authenticationResponse)
                       threshold tags st2 of
                  (Some code, st3) \<Rightarrow> Some (code, st3)
                | (None, st3) \<Rightarrow> Some (0, st3))))"

subsection \<open>What the registry serves\<close>

text \<open>
  \<open>serves env token w url pages url' w'\<close>: starting in world \<open>w\<close>, the requests that
  \<^verbatim>\<open>List\<close> makes for \<open>url\<close>, then for the \<open>next\<close> of each page, are answered with
  \<open>pages\<close>, one after the other; the \<open>next\<close> of the last page is \<open>url'\<close> and the world is
  then \<open>w'\<close>. With \<open>url' = []\<close> this is a chain of pages that ends.
\<close>

fun serves :: "('w, 'b, 'u, 'r) env \<Rightarrow> string \<Rightarrow> 'w \<Rightarrow> string \<Rightarrow> 'u Page list
    \<Rightarrow> string \<Rightarrow> 'w \<Rightarrow> bool" where
  "serves env token w url [] url' w' = (url' = url \<and> w' = w)"
| "serves env token w url (p # ps) url' w' =
     (url \<noteq> [] \<and> http_NewRequest env GET url = None \<and>
      (case client_Do env (list_request token url) w of
         (Inl err, w1) \<Rightarrow> False
       | (Inr rsp, w1) \<Rightarrow>
           (case Body rsp of
              Inl err \<Rightarrow> False
            | Inr body \<Rightarrow>
                json_Unmarshal_Page env body = Inr p \<and>
                serves env token w1 (Next p) ps url' w')))"

text \<open>The URLs of the pages: the first one, then each page's \<open>next\<close> but the last.\<close>

fun page_urls :: "string \<Rightarrow> 'u Page list \<Rightarrow> string list" where
  "page_urls url [] = []"
| "page_urls url (p # ps) = url # page_urls (Next p) ps"

text \<open>The state after these pages were fetched: one request per page, no body left open.\<close>

definition after_pages :: "string \<Rightarrow> string \<Rightarrow> 'u Page list \<Rightarrow> 'w \<Rightarrow> ('w, 'b) state
    \<Rightarrow> ('w, 'b) state" where
  "after_pages token url pages w' st =
     st\<lparr>world := w', sent := sent st @ map (list_request token) (page_urls url pages)\<rparr>"

subsection \<open>encoding/json on the types of the program\<close>

text \<open>
  \<^verbatim>\<open>encoding/json\<close> belongs to the Go distribution, not to the repository. What follows
  are the decoders it derives from the struct declarations of \<^verbatim>\<open>main.go\<close>, written from
  the package documentation at the level of JSON values: a byte string is represented by
  the value it spells (\<open>json\<close>, with strings as the texts they denote and numbers as
  their literals), or by \<open>NotJSON\<close> when it spells none.

  \<^verbatim>\<open>null\<close> leaves a string, number or struct target as it is and empties a slice; a
  value that does not fit its target is skipped, the first such mismatch is remembered
  and returned at the end; an error returned by a type's \<^verbatim>\<open>UnmarshalJSON\<close> stops the
  decoding at once. The target keeps what was written into it before.
\<close>

datatype json =
    JNull
  | JBool bool
  | JNumber string
  | JString string
  | JArray "json list"
  | JObject "(string \<times> json) list"

datatype raw = NotJSON | JSON json

definition syntax_error :: error where
  "syntax_error = ''invalid character looking for beginning of value''"

definition type_error :: error where
  "type_error = ''json: cannot unmarshal value into Go value''"

definition saveError :: "error \<Rightarrow> error option \<Rightarrow> error option" where
  "saveError err saved = (case saved of None \<Rightarrow> Some err | Some e \<Rightarrow> Some e)"

text \<open>
  The member of an object that belongs to a struct field is found by its name, letters
  compared without regard to case. Two letters have a further spelling each that counts
  as the same: the long s (U+017F, bytes C5 BF) for \<^verbatim>\<open>s\<close> and the Kelvin sign (U+212A,
  bytes E2 84 AA) for \<^verbatim>\<open>k\<close>. \<open>foldName\<close> brings a name to capitals.
\<close>

definition upper :: "char \<Rightarrow> char" where
  "upper c =
     (if 97 \<le> (of_char c :: nat) \<and> (of_char c :: nat) \<le> 122
      then (case c of Char b0 b1 b2 b3 b4 b5 b6 b7 \<Rightarrow> Char b0 b1 b2 b3 b4 False b6 b7)
      else c)"

fun foldName :: "string \<Rightarrow> string" where
  "foldName (c # d # e # cs) =
     (if c = CHR 0xE2 \<and> d = CHR 0x84 \<and> e = CHR 0xAA then CHR ''K'' # foldName cs
      else if c = CHR 0xC5 \<and> d = CHR 0xBF then CHR ''S'' # foldName (e # cs)
      else upper c # foldName (d # e # cs))"
| "foldName (c # d # cs) =
     (if c = CHR 0xC5 \<and> d = CHR 0xBF then CHR ''S'' # foldName cs
      else upper c # foldName (d # cs))"
| "foldName (c # cs) = upper c # foldName cs"
| "foldName [] = []"

definition named :: "string \<Rightarrow> string \<Rightarrow> bool" where
  "named field key = (foldName key = foldName field)"

fun decode_string :: "json \<Rightarrow> string \<Rightarrow> error option \<Rightarrow> string \<times> error option" where
  "decode_string JNull s saved = (s, saved)"
| "decode_string (JString v) s saved = (v, saved)"
| "decode_string v s saved = (s, saveError type_error saved)"

text \<open>An \<^verbatim>\<open>int\<close> target takes a literal that is an integer in the range of 64 bits.\<close>

fun digits :: "string \<Rightarrow> nat \<Rightarrow> nat option" where
  "digits [] n = Some n"
| "digits (c # cs) n =
     (if 48 \<le> (of_char c :: nat) \<and> (of_char c :: nat) \<le> 57
      then digits cs (10 * n + (of_char c - 48)) else None)"

definition int_literal :: "string \<Rightarrow> int option" where
  "int_literal lit =
     (case lit of
        [] \<Rightarrow> None
      | c # cs \<Rightarrow>
          if c = CHR ''-'' then (if cs = [] then None else map_option (\<lambda>n. - int n) (digits cs 0))
          else map_option int (digits lit 0))"

fun decode_int :: "json \<Rightarrow> int \<Rightarrow> error option \<Rightarrow> int \<times> error option" where
  "decode_int JNull n saved = (n, saved)"
| "decode_int (JNumber lit) n saved =
     (case int_literal lit of
        None \<Rightarrow> (n, saveError type_error saved)
      | Some v \<Rightarrow>
          if - (2 ^ 63) \<le> v \<and> v < 2 ^ 63 then (v, saved) else (n, saveError type_error saved))"
| "decode_int v n saved = (n, saveError type_error saved)"

text \<open>
  The values that an \<^verbatim>\<open>interface{}\<close> target receives: \<^verbatim>\<open>nil\<close>, a \<^verbatim>\<open>bool\<close>, a
  \<^verbatim>\<open>float64\<close>, a \<^verbatim>\<open>string\<close>, a \<^verbatim>\<open>[]interface{}\<close> or a \<^verbatim>\<open>map[string]interface{}\<close>.
  \<open>'f\<close> is the type of a \<^verbatim>\<open>float64\<close>; floating point is not modelled, and the two
  conversions of the package are parameters: \<open>pf\<close> for \<^verbatim>\<open>strconv.ParseFloat\<close>, which
  gives the number of a literal or an error when it is out of range, and \<open>ff\<close> for the
  literal that the encoder writes for a number.

  A map is the list of its entries in the order of their names, each name once; that is
  the order in which the encoder writes them. \<open>assign k v m\<close> is \<^verbatim>\<open>m[k] = v\<close>.
\<close>

datatype 'f any =
    ANil
  | ABool bool
  | AFloat 'f
  | AString string
  | ASlice "'f any list"
  | AMap "(string \<times> 'f any) list"

fun assign :: "string \<Rightarrow> 'v \<Rightarrow> (string \<times> 'v) list \<Rightarrow> (string \<times> 'v) list" where
  "assign k v [] = [(k, v)]"
| "assign k v ((k', v') # m) =
     (if k < k' then (k, v) # (k', v') # m
      else if k = k' then (k, v) # m
      else (k', v') # assign k v m)"

text \<open>
  Decoding into an \<^verbatim>\<open>interface{}\<close>. A number out of range is a mismatch: it is
  remembered and the value is \<^verbatim>\<open>nil\<close>. The members of an object are assigned to the map
  in the order in which they are written, so the last of a repeated name stays.
\<close>

fun untyped :: "(string \<Rightarrow> error + 'f) \<Rightarrow> json \<Rightarrow> error option \<Rightarrow> 'f any \<times> error option"
  and untyped_elements :: "(string \<Rightarrow> error + 'f) \<Rightarrow> json list \<Rightarrow> error option
    \<Rightarrow> 'f any list \<times> error option"
  and untyped_members :: "(string \<Rightarrow> error + 'f) \<Rightarrow> (string \<times> json) list
    \<Rightarrow> (string \<times> 'f any) list \<Rightarrow> error option \<Rightarrow> (string \<times> 'f any) list \<times> error option"
where
  "untyped pf JNull saved = (ANil, saved)"
| "untyped pf (JBool b) saved = (ABool b, saved)"
| "untyped pf (JNumber lit) saved =
     (case pf lit of Inl err \<Rightarrow> (ANil, saveError err saved) | Inr f \<Rightarrow> (AFloat f, saved))"
| "untyped pf (JString s) saved = (AString s, saved)"
| "untyped pf (JArray vs) saved =
     (case untyped_elements pf vs saved of (xs, saved') \<Rightarrow> (ASlice xs, saved'))"
| "untyped pf (JObject members) saved =
     (case untyped_members pf members [] saved of (m, saved') \<Rightarrow> (AMap m, saved'))"
| "untyped_elements pf [] saved = ([], saved)"
| "untyped_elements pf (v # vs) saved =
     (case untyped pf v saved of
        (x, saved') \<Rightarrow>
          (case untyped_elements pf vs saved' of (xs, saved'') \<Rightarrow> (x # xs, saved'')))"
| "untyped_members pf [] m saved = (m, saved)"
| "untyped_members pf ((k, v) # members) m saved =
     (case untyped pf v saved of
        (x, saved') \<Rightarrow> untyped_members pf members (assign k x m) saved')"

text \<open>A \<^verbatim>\<open>[]interface{}\<close> target takes the elements of an array.\<close>

fun decode_untyped_list :: "(string \<Rightarrow> error + 'f) \<Rightarrow> json \<Rightarrow> 'f any list \<Rightarrow> error option
    \<Rightarrow> 'f any list \<times> error option" where
  "decode_untyped_list pf JNull xs saved = ([], saved)"
| "decode_untyped_list pf (JArray vs) xs saved = untyped_elements pf vs saved"
| "decode_untyped_list pf v xs saved = (xs, saveError type_error saved)"

fun object_Page :: "(string \<Rightarrow> error + 'f) \<Rightarrow> (string \<times> json) list \<Rightarrow> 'f any Page
    \<Rightarrow> error option \<Rightarrow> 'f any Page \<times> error option" where
  "object_Page pf [] page saved = (page, saved)"
| "object_Page pf ((key, v) # members) page saved =
     (if named ''count'' key then
        (case decode_int v (Count page) saved of
           (n, saved') \<Rightarrow> object_Page pf members (page\<lparr>Count := n\<rparr>) saved')
      else if named ''next'' key then
        (case decode_string v (Next page) saved of
           (s, saved') \<Rightarrow> object_Page pf members (page\<lparr>Next := s\<rparr>) saved')
      else if named ''previous'' key then
        (case decode_string v (Previous page) saved of
           (s, saved') \<Rightarrow> object_Page pf members (page\<lparr>Previous := s\<rparr>) saved')
      else if named ''results'' key then
        (case decode_untyped_list pf v (Results page) saved of
           (xs, saved') \<Rightarrow> object_Page pf members (page\<lparr>Results := xs\<rparr>) saved')
      else object_Page pf members page saved)"

text \<open>\<^verbatim>\<open>json.Unmarshal(body, page)\<close> with \<^verbatim>\<open>page := &Page{}\<close>.\<close>

definition go_Unmarshal_Page :: "(string \<Rightarrow> error + 'f) \<Rightarrow> raw \<Rightarrow> error + 'f any Page" where
  "go_Unmarshal_Page pf body =
     (case body of
        NotJSON \<Rightarrow> Inl syntax_error
      | JSON JNull \<Rightarrow> Inr \<lparr>Count = 0, Next = [], Previous = [], Results = []\<rparr>
      | JSON (JObject members) \<Rightarrow>
          (case object_Page pf members \<lparr>Count = 0, Next = [], Previous = [], Results = []\<rparr>
                  None of
             (page, None) \<Rightarrow> Inr page
           | (page, Some err) \<Rightarrow> Inl err)
      | JSON v \<Rightarrow> Inl type_error)"

fun object_AuthenticationResponse :: "(string \<times> json) list \<Rightarrow> AuthenticationResponse
    \<Rightarrow> error option \<Rightarrow> AuthenticationResponse \<times> error option" where
  "object_AuthenticationResponse [] a saved = (a, saved)"
| "object_AuthenticationResponse ((key, v) # members) a saved =
     (if named ''token'' key then
        (case decode_string v (Token a) saved of
           (s, saved') \<Rightarrow> object_AuthenticationResponse members (a\<lparr>Token := s\<rparr>) saved')
      else object_AuthenticationResponse members a saved)"

definition go_Unmarshal_AuthenticationResponse :: "raw \<Rightarrow> error + AuthenticationResponse" where
  "go_Unmarshal_AuthenticationResponse body =
     (case body of
        NotJSON \<Rightarrow> Inl syntax_error
      | JSON JNull \<Rightarrow> Inr \<lparr>Token = []\<rparr>
      | JSON (JObject members) \<Rightarrow>
          (case object_AuthenticationResponse members \<lparr>Token = []\<rparr> None of
             (a, None) \<Rightarrow> Inr a
           | (a, Some err) \<Rightarrow> Inl err)
      | JSON v \<Rightarrow> Inl type_error)"

text \<open>\<^verbatim>\<open>json.Unmarshal(data, &s)\<close> for a string \<^verbatim>\<open>s\<close>.\<close>

definition go_Unmarshal_string :: "raw \<Rightarrow> string \<Rightarrow> error option \<times> string" where
  "go_Unmarshal_string data s =
     (case data of
        NotJSON \<Rightarrow> (Some syntax_error, s)
      | JSON v \<Rightarrow> (case decode_string v s None of (s', saved) \<Rightarrow> (saved, s')))"

subsection \<open>Time.UnmarshalJSON\<close>

text \<open>
  Lines 51 to 66. \<open>parse\<close> stands for \<^verbatim>\<open>time.Parse(time.RFC3339Nano, _)\<close>. The result is
  the returned error and the receiver's time afterwards.
\<close>

definition Time_UnmarshalJSON :: "(string \<Rightarrow> error + time) \<Rightarrow> raw \<Rightarrow> time
    \<Rightarrow> error option \<times> time" where
  "Time_UnmarshalJSON parse data t =
     (case go_Unmarshal_string data [] of
        (Some err, s) \<Rightarrow> (Some err, t)
      | (None, s) \<Rightarrow>
          (case parse s of
             Inl err \<Rightarrow> (Some err, t)
           | Inr tt \<Rightarrow> (None, tt)))"

subsection \<open>Decoding into a TagList\<close>

text \<open>
  The zero \<^verbatim>\<open>Tag\<close>: an empty name and the zero \<^verbatim>\<open>time.Time\<close>, the first instant of
  year 1.
\<close>

definition zero_Time :: time where
  "zero_Time = - 62135596800 * 1000000000"

definition zero_Tag :: Tag where
  "zero_Tag = \<lparr>Name = [], LastUpdated = zero_Time\<rparr>"

text \<open>
  A struct target of type \<^verbatim>\<open>Tag\<close>. The result is the tag as written so far, the
  remembered mismatch, and the error of \<^verbatim>\<open>Time.UnmarshalJSON\<close> if it stopped the
  decoding.
\<close>

fun object_Tag :: "(string \<Rightarrow> error + time) \<Rightarrow> (string \<times> json) list \<Rightarrow> Tag \<Rightarrow> error option
    \<Rightarrow> Tag \<times> error option \<times> error option" where
  "object_Tag parse [] tag saved = (tag, saved, None)"
| "object_Tag parse ((key, v) # members) tag saved =
     (if named ''name'' key then
        (case decode_string v (Name tag) saved of
           (s, saved') \<Rightarrow> object_Tag parse members (tag\<lparr>Name := s\<rparr>) saved')
      else if named ''last_updated'' key then
        (case Time_UnmarshalJSON parse (JSON v) (LastUpdated tag) of
           (Some err, t) \<Rightarrow> (tag\<lparr>LastUpdated := t\<rparr>, saved, Some err)
         | (None, t) \<Rightarrow> object_Tag parse members (tag\<lparr>LastUpdated := t\<rparr>) saved)
      else object_Tag parse members tag saved)"

fun decode_Tag :: "(string \<Rightarrow> error + time) \<Rightarrow> json \<Rightarrow> Tag \<Rightarrow> error option
    \<Rightarrow> Tag \<times> error option \<times> error option" where
  "decode_Tag parse JNull tag saved = (tag, saved, None)"
| "decode_Tag parse (JObject members) tag saved = object_Tag parse members tag saved"
| "decode_Tag parse v tag saved = (tag, saveError type_error saved, None)"

text \<open>
  A slice target of type \<^verbatim>\<open>TagList\<close>, without spare capacity (as \<^verbatim>\<open>TagList{}\<close> is):
  element \<open>i\<close> of the array is decoded into element \<open>i\<close> of the slice, which is the
  element already there or else a zero \<^verbatim>\<open>Tag\<close>; at the end of the array the slice is
  cut to its length. \<open>old\<close> is the part of the slice not reached yet.
\<close>

fun array_TagList :: "(string \<Rightarrow> error + time) \<Rightarrow> json list \<Rightarrow> TagList \<Rightarrow> error option
    \<Rightarrow> TagList \<times> error option \<times> error option" where
  "array_TagList parse [] old saved = ([], saved, None)"
| "array_TagList parse (v # vs) old saved =
     (case decode_Tag parse v (case old of [] \<Rightarrow> zero_Tag | t # ts \<Rightarrow> t) saved of
        (tag, saved', Some err) \<Rightarrow> (tag # tl old, saved', Some err)
      | (tag, saved', None) \<Rightarrow>
          (case array_TagList parse vs (tl old) saved' of
             (tags, saved'', stopped) \<Rightarrow> (tag # tags, saved'', stopped)))"

text \<open>\<^verbatim>\<open>json.Unmarshal(resultsRaw, results)\<close> with \<^verbatim>\<open>results\<close> a \<^verbatim>\<open>*TagList\<close>.\<close>

definition go_Unmarshal_TagList :: "(string \<Rightarrow> error + time) \<Rightarrow> raw \<Rightarrow> TagList
    \<Rightarrow> error option \<times> TagList" where
  "go_Unmarshal_TagList parse data tags =
     (case data of
        NotJSON \<Rightarrow> (Some syntax_error, tags)
      | JSON JNull \<Rightarrow> (None, [])
      | JSON (JArray vs) \<Rightarrow>
          (case array_TagList parse vs tags None of
             (tags', saved, Some err) \<Rightarrow> (Some err, tags')
           | (tags', saved, None) \<Rightarrow> (saved, tags'))
      | JSON v \<Rightarrow> (Some type_error, tags))"

text \<open>
  \<^verbatim>\<open>json.Marshal\<close>. The encoder writes a \<^verbatim>\<open>float64\<close> as the literal \<open>ff\<close> gives and a
  map with its entries in the order of their names. The numbers that the decoder
  produced are finite, so encoding the accumulated \<^verbatim>\<open>[]interface{}\<close> does not fail.
\<close>

primrec marshal :: "('f \<Rightarrow> string) \<Rightarrow> 'f any \<Rightarrow> json" where
  "marshal ff ANil = JNull"
| "marshal ff (ABool b) = JBool b"
| "marshal ff (AFloat f) = JNumber (ff f)"
| "marshal ff (AString s) = JString s"
| "marshal ff (ASlice xs) = JArray (map (marshal ff) xs)"
| "marshal ff (AMap m) = JObject (map (map_prod id (marshal ff)) m)"

definition go_Marshal :: "('f \<Rightarrow> string) \<Rightarrow> 'f any list \<Rightarrow> error + raw" where
  "go_Marshal ff xs = Inr (JSON (JArray (map (marshal ff) xs)))"

text \<open>The credentials are a \<^verbatim>\<open>map[string]string\<close> built from the given entries.\<close>

definition go_Marshal_credentials :: "(string \<times> string) list \<Rightarrow> error + raw" where
  "go_Marshal_credentials data =
     Inr (JSON (JObject (map (map_prod id JString) (foldl (\<lambda>m (k, v). assign k v m) [] data))))"

subsection \<open>A registry to run the program against\<close>

text \<open>
  The library record with the decoders above. \<open>parse_duration\<close>, \<open>parse\<close>, \<open>pf\<close> and
  \<open>ff\<close> stand for \<^verbatim>\<open>time.ParseDuration\<close>, \<^verbatim>\<open>time.Parse\<close> and the two conversions of
  numbers, \<open>new_request\<close> for \<^verbatim>\<open>http.NewRequest\<close>. The world is the reading of the clock;
  \<open>server\<close> answers a request.
\<close>

definition registry :: "(string \<Rightarrow> error + duration) \<Rightarrow> (string \<Rightarrow> error + time)
    \<Rightarrow> (string \<Rightarrow> error + 'f) \<Rightarrow> ('f \<Rightarrow> string) \<Rightarrow> (verb \<Rightarrow> string \<Rightarrow> error option)
    \<Rightarrow> (raw request \<Rightarrow> error + raw response) \<Rightarrow> (time, raw, 'f any, TagList) env" where
  "registry parse_duration parse pf ff new_request server =
     \<lparr>time_ParseDuration = parse_duration,
      time_Now = (\<lambda>w. (w, w)),
      http_NewRequest = new_request,
      client_Do = (\<lambda>req w. (server req, w)),
      json_Marshal_credentials = go_Marshal_credentials,
      json_Unmarshal_AuthenticationResponse = go_Unmarshal_AuthenticationResponse,
      json_Unmarshal_Page = go_Unmarshal_Page pf,
      json_Marshal = go_Marshal ff,
      json_Unmarshal = go_Unmarshal_TagList parse\<rparr>"

text \<open>
  Concrete runs. The registry answers from a table indexed by verb and URL; the clock
  stands at 2020-01-03T00:00:00Z. The \<open>demo\<close> functions give \<^verbatim>\<open>time.ParseDuration\<close>,
  \<^verbatim>\<open>time.Parse\<close>, the conversions of numbers and \<^verbatim>\<open>http.NewRequest\<close> on the strings,
  numbers and URLs that occur in these runs; a number is represented by an integer, and
  the only URL refused has a control character in it.
\<close>

definition demo_ParseDuration :: "string \<Rightarrow> error + duration" where
  "demo_ParseDuration s =
     (if s = ''24h'' then Inr 86400000000000 else Inl ''time: invalid duration'')"

definition demo_Parse :: "string \<Rightarrow> error + time" where
  "demo_Parse s =
     (case map_of [(''2020-01-01T00:00:00Z'', 1577836800000000000),
                   (''2020-01-02T00:00:00Z'', 1577923200000000000),
                   (''2020-01-01T23:59:59.999999999Z'', 1577923199999999999),
                   (''2020-01-02T23:00:00Z'', 1578006000000000000)] s of
        Some t \<Rightarrow> Inr t
      | None \<Rightarrow> Inl ''parsing time: cannot parse'')"

definition demo_ParseFloat :: "string \<Rightarrow> error + int" where
  "demo_ParseFloat lit =
     (case map_of [(''5'', 5), (''10'', 10)] lit of
        Some f \<Rightarrow> Inr f
      | None \<Rightarrow> Inl ''strconv.ParseFloat: value out of range'')"

definition demo_FormatFloat :: "int \<Rightarrow> string" where
  "demo_FormatFloat f = (if f = 5 then ''5'' else if f = 10 then ''10'' else ''0'')"

definition control_char :: "char \<Rightarrow> bool" where
  "control_char c = ((of_char c :: nat) < 32 \<or> (of_char c :: nat) = 127)"

definition demo_NewRequest :: "verb \<Rightarrow> string \<Rightarrow> error option" where
  "demo_NewRequest m url =
     (if list_ex control_char url then Some ''net/url: invalid control character in URL''
      else None)"

type_synonym table = "((verb \<times> string) \<times> (error + raw response)) list"

definition serve :: "table \<Rightarrow> raw request \<Rightarrow> error + raw response" where
  "serve table req =
     (case map_of table (req_verb req, req_url req) of
        Some answer \<Rightarrow> answer
      | None \<Rightarrow> Inr \<lparr>StatusCode = 404, Body = Inr NotJSON\<rparr>)"

definition demo_env :: "table \<Rightarrow> (time, raw, int any, TagList) env" where
  "demo_env table =
     registry demo_ParseDuration demo_Parse demo_ParseFloat demo_FormatFloat demo_NewRequest
       (serve table)"

definition demo_flags :: flags where
  "demo_flags = \<lparr>username = ''u'', password = ''p'', image = ''i'', thresholdStr = ''24h''\<rparr>"

definition demo_state :: "(time, raw) state" where
  "demo_state = \<lparr>world = 1578009600000000000, sent = [], open_bodies = 0, stdout = []\<rparr>"

definition status :: "int \<Rightarrow> error + raw response" where
  "status code = Inr \<lparr>StatusCode = code, Body = Inr NotJSON\<rparr>"

definition answer :: "json \<Rightarrow> error + raw response" where
  "answer v = Inr \<lparr>StatusCode = 200, Body = Inr (JSON v)\<rparr>"

definition tag_json :: "string \<Rightarrow> string \<Rightarrow> json" where
  "tag_json name stamp = JObject [(''name'', JString name), (''last_updated'', JString stamp)]"

definition page_json :: "json \<Rightarrow> json list \<Rightarrow> json" where
  "page_json nxt results =
     JObject [(''count'', JNumber ''4''), (''next'', nxt), (''previous'', JNull),
              (''results'', JArray results)]"

definition page1_url :: string where
  "page1_url = ''https://hub.docker.com/v2/repositories/u/i/tags''"

definition page2_url :: string where
  "page2_url = ''https://hub.docker.com/v2/repositories/u/i/tags?page=2''"

definition page1_json :: json where
  "page1_json = page_json (JString page2_url) [tag_json ''v1'' ''2020-01-01T00:00:00Z'']"

definition page2_json :: json where
  "page2_json =
     page_json JNull
       [tag_json ''v2'' ''2020-01-02T23:00:00Z'', tag_json ''v3'' ''2020-01-02T00:00:00Z'',
        tag_json ''v4'' ''2020-01-01T23:59:59.999999999Z'']"

text \<open>
  The table: the login, the two pages of tags and the deletion of \<^verbatim>\<open>v1\<close> are answered
  as given; the deletion of \<^verbatim>\<open>v4\<close> succeeds.
\<close>

definition demo_table :: "(error + raw response) \<Rightarrow> (error + raw response)
    \<Rightarrow> (error + raw response) \<Rightarrow> table" where
  "demo_table first second deleted =
     [((POST, ''https://hub.docker.com/v2/users/login/''),
         answer (JObject [(''token'', JString ''jwt'')])),
      ((GET, page1_url), first),
      ((GET, page2_url), second),
      ((DELETE, ''https://hub.docker.com/v2/repositories/u/i/tags/v1/''), deleted),
      ((DELETE, ''https://hub.docker.com/v2/repositories/u/i/tags/v4/''), status 204)]"

text \<open>The two pages as decoded, and the tags they list.\<close>

definition tag_record :: "string \<Rightarrow> string \<Rightarrow> int any" where
  "tag_record name stamp = AMap [(''last_updated'', AString stamp), (''name'', AString name)]"

definition page1 :: "int any Page" where
  "page1 = \<lparr>Count = 4, Next = page2_url, Previous = [],
            Results = [tag_record ''v1'' ''2020-01-01T00:00:00Z'']\<rparr>"

definition page2 :: "int any Page" where
  "page2 = \<lparr>Count = 4, Next = [], Previous = [],
            Results = [tag_record ''v2'' ''2020-01-02T23:00:00Z'',
                       tag_record ''v3'' ''2020-01-02T00:00:00Z'',
                       tag_record ''v4'' ''2020-01-01T23:59:59.999999999Z'']\<rparr>"

definition v1 :: Tag where
  "v1 = \<lparr>Name = ''v1'', LastUpdated = 1577836800000000000\<rparr>"

definition v2 :: Tag where
  "v2 = \<lparr>Name = ''v2'', LastUpdated = 1578006000000000000\<rparr>"

definition v3 :: Tag where
  "v3 = \<lparr>Name = ''v3'', LastUpdated = 1577923200000000000\<rparr>"

definition v4 :: Tag where
  "v4 = \<lparr>Name = ''v4'', LastUpdated = 1577923199999999999\<rparr>"

definition demo_tags :: TagList where
  "demo_tags = [v1, v2, v3, v4]"

text \<open>Both pages are served and the deletion of \<^verbatim>\<open>v1\<close> is refused.\<close>

definition two_pages :: table where
  "two_pages = demo_table (answer page1_json) (answer page2_json) (status 403)"

text \<open>The first page names itself as the next one.\<close>

definition one_page_forever :: table where
  "one_page_forever =
     demo_table (answer (page_json (JString page1_url) [tag_json ''v1'' ''2020-01-01T00:00:00Z'']))
       (status 404) (status 404)"

subsection \<open>States reached in the reaping loop\<close>

text \<open>The requests sent between two states of a run.\<close>

definition issued :: "('w, 'b) state \<Rightarrow> ('w, 'b) state \<Rightarrow> 'b request list" where
  "issued st st' = drop (length (sent st)) (sent st')"

text \<open>
  The state after line 207 for a tag: the clock was read a second time, giving \<open>now\<close>
  and the world \<open>w\<close>, and the line announcing the deletion is printed.
\<close>

definition announced :: "Tag \<Rightarrow> time \<Rightarrow> 'w \<Rightarrow> ('w, 'b) state \<Rightarrow> ('w, 'b) state" where
  "announced tag now w st =
     println [Str ''deleting tag'', Str (Name tag), Str ''age'',
              Dur (time_Sub now (LastUpdated tag))] (st\<lparr>world := w\<rparr>)"

text \<open>The state after the DELETE request for a tag was sent and its body, if any, closed.\<close>

definition after_delete :: "string \<Rightarrow> string \<Rightarrow> string \<Rightarrow> Tag \<Rightarrow> 'w \<Rightarrow> ('w, 'b) state
    \<Rightarrow> ('w, 'b) state" where
  "after_delete user img token tag w st =
     st\<lparr>world := w, sent := sent st @ [delete_request user img token (Name tag)]\<rparr>"

text \<open>The state after one more request of the walk was sent.\<close>

definition after_request :: "string \<Rightarrow> string \<Rightarrow> 'w \<Rightarrow> ('w, 'b) state \<Rightarrow> ('w, 'b) state" where
  "after_request token url w st = st\<lparr>world := w, sent := sent st @ [list_request token url]\<rparr>"

subsection \<open>Further registries\<close>

text \<open>The second page is not JSON.\<close>

definition bad_second_page :: table where
  "bad_second_page = demo_table (answer page1_json) (status 200) (status 403)"

text \<open>The only page lists a number where a tag is expected.\<close>

definition odd_result :: table where
  "odd_result = demo_table (answer (page_json JNull [JNumber ''5''])) (status 404) (status 404)"

definition odd_page :: "int any Page" where
  "odd_page = \<lparr>Count = 4, Next = [], Previous = [], Results = [AFloat 5]\<rparr>"

text \<open>The body of the first page cannot be read to its end.\<close>

definition unreadable_page :: table where
  "unreadable_page =
     demo_table (Inr \<lparr>StatusCode = 200, Body = Inl ''unexpected EOF''\<rparr>) (status 404)
       (status 404)"

text \<open>The connection fails when \<^verbatim>\<open>v1\<close> is to be deleted.\<close>

definition delete_fails :: table where
  "delete_fails =
     demo_table (answer page1_json) (answer page2_json) (Inl ''connection reset by peer'')"

text \<open>The only page lists an old tag whose name is a control character.\<close>

definition odd_name :: table where
  "odd_name =
     demo_table (answer (page_json JNull [tag_json [CHR 0x7F] ''2020-01-01T00:00:00Z'']))
       (status 404) (status 404)"

definition rubout :: Tag where
  "rubout = \<lparr>Name = [CHR 0x7F], LastUpdated = 1577836800000000000\<rparr>"

subsection \<open>States of the runs\<close>

text \<open>
  After the login, after the two pages (or only the first) were listed, after the loop
  dealt with \<^verbatim>\<open>v1\<close> (deletion refused with 403), and after it deleted \<^verbatim>\<open>v4\<close>.
\<close>

definition jwt :: AuthenticationResponse where
  "jwt = \<lparr>Token = ''jwt''\<rparr>"

definition logged_in :: "(time, raw) state" where
  "logged_in =
     demo_state\<lparr>sent := [login_request
       (JSON (JObject [(''password'', JString ''p''), (''username'', JString ''u'')]))]\<rparr>"

definition listed :: "(time, raw) state" where
  "listed = logged_in\<lparr>sent := sent logged_in @
       [list_request ''jwt'' page1_url, list_request ''jwt'' page2_url]\<rparr>"

definition listed_one :: "(time, raw) state" where
  "listed_one = logged_in\<lparr>sent := sent logged_in @ [list_request ''jwt'' page1_url]\<rparr>"

definition reaped_v1 :: "(time, raw) state" where
  "reaped_v1 =
     listed\<lparr>sent := sent listed @ [delete_request ''u'' ''i'' ''jwt'' ''v1''],
            stdout := [[Str ''deleting tag'', Str ''v1'', Str ''age'', Dur 172800000000000],
                       [Str ''unexpected status code'', Num 403]]\<rparr>"

definition reaped_v4 :: "(time, raw) state" where
  "reaped_v4 =
     reaped_v1\<lparr>sent := sent reaped_v1 @ [delete_request ''u'' ''i'' ''jwt'' ''v4''],
               stdout := stdout reaped_v1 @
                 [[Str ''deleting tag'', Str ''v4'', Str ''age'', Dur 86400000000001]]\<rparr>"

subsection \<open>The fields of a record\<close>









section \<open>Properties\<close>

lemmas demo_defs = demo_env_def registry_def serve_def answer_def status_def tag_json_def
  page_json_def demo_flags_def page1_url_def page2_url_def page1_json_def page2_json_def
  demo_table_def demo_state_def
  demo_ParseDuration_def demo_Parse_def tags_url_def tag_url_def login_url_def
  demo_NewRequest_def control_char_def go_Marshal_def go_Marshal_credentials_def
  demo_ParseFloat_def demo_FormatFloat_def named_def upper_def tag_record_def
  go_Unmarshal_Page_def go_Unmarshal_AuthenticationResponse_def go_Unmarshal_TagList_def
  go_Unmarshal_string_def Time_UnmarshalJSON_def zero_Tag_def zero_Time_def
  saveError_def int_literal_def list_request_def login_request_def delete_request_def
  Do_def Body_Close_def println_def Since_def time_Since_def time_Sub_def

lemmas run_defs = v1_def v2_def v3_def v4_def rubout_def jwt_def logged_in_def listed_def
  listed_one_def reaped_v1_def reaped_v4_def

subsection \<open>The walk over the pages\<close>

lemma after_pages_simps [simp]:
  "world (after_pages token url pages w' st) = w'"
  "sent (after_pages token url pages w' st) =
     sent st @ map (list_request token) (page_urls url pages)"
  "open_bodies (after_pages token url pages w' st) = open_bodies st"
  "stdout (after_pages token url pages w' st) = stdout st"
  by (simp_all add: after_pages_def)

lemma length_page_urls: "length (page_urls url pages) = length pages"
  by (induction pages arbitrary: url) simp_all

text \<open>Fetching pages that are served takes the loop from the first URL to the last \<open>next\<close>.\<close>

lemma List_loop_serves:
  "serves env token (world st) url pages url' w' \<Longrightarrow>
   List_loop env token url acc st =
   List_loop env token url' (acc @ concat (map Results pages))
     (after_pages token url pages w' st)"
proof (induction pages arbitrary: url acc st)
  case Nil
  then show ?case by (simp add: after_pages_def)
next
  case (Cons p ps)
  from Cons.prems obtain rsp w1 body where
    url: "url \<noteq> []" and nr: "http_NewRequest env GET url = None"
    and cd: "client_Do env (list_request token url) (world st) = (Inr rsp, w1)"
    and bd: "Body rsp = Inr body" and up: "json_Unmarshal_Page env body = Inr p"
    and rest: "serves env token w1 (Next p) ps url' w'"
    by (auto split: prod.splits sum.splits)
  let ?st1 = "st\<lparr>world := w1, sent := sent st @ [list_request token url]\<rparr>"
  have step: "List_loop env token url acc st =
      List_loop env token (Next p) (acc @ Results p) ?st1"
    by (subst List_loop.simps) (simp add: url nr cd bd up Do_def Body_Close_def)
  have "serves env token (world ?st1) (Next p) ps url' w'" using rest by simp
  from Cons.IH [OF this] have "List_loop env token (Next p) (acc @ Results p) ?st1 =
      List_loop env token url' ((acc @ Results p) @ concat (map Results ps))
        (after_pages token (Next p) ps w' ?st1)" .
  moreover have "after_pages token (Next p) ps w' ?st1 = after_pages token url (p # ps) w' st"
    by (simp add: after_pages_def)
  ultimately show ?case using step by simp
qed

lemma List_loop_empty: "List_loop env token [] acc st = Some (Inr acc, st)"
  by (subst List_loop.simps) simp

lemma List_loop_ended:
  "serves env token (world st) url pages [] w' \<Longrightarrow>
   List_loop env token url [] st =
     Some (Inr (concat (map Results pages)), after_pages token url pages w' st)"
  using List_loop_serves [of env token st url pages "[]" w' "[]"]
  by (simp add: List_loop_empty)

text \<open>
  A walk that stays within a set of non-empty URLs, each answered with a page whose
  \<open>next\<close> is in the set again, does not return.
\<close>

lemma List_loop_never_ends:
  assumes "url \<in> S"
    and "\<forall>u\<in>S. u \<noteq> [] \<and> http_NewRequest env GET u = None \<and>
           (\<forall>w. \<exists>rsp w1 body p. client_Do env (list_request token u) w = (Inr rsp, w1) \<and>
              Body rsp = Inr body \<and> json_Unmarshal_Page env body = Inr p \<and> Next p \<in> S)"
  shows "List_loop env token url acc st = None"
proof (rule ccontr)
  assume "List_loop env token url acc st \<noteq> None"
  then obtain y where y: "List_loop env token url acc st = Some y" by auto
  have "env = env \<and> token = token \<longrightarrow> url \<notin> S"
  proof (rule List_loop.raw_induct
      [where P = "\<lambda>e t u a s y. e = env \<and> t = token \<longrightarrow> u \<notin> S", OF _ y])
    fix loop :: "('a, 'b, 'c, 'd) env \<Rightarrow> string \<Rightarrow> string \<Rightarrow> 'c list \<Rightarrow> ('a, 'b) state
        \<Rightarrow> ((error + 'c list) \<times> ('a, 'b) state) option"
    fix e t u a s y
    assume IH: "\<And>e t u a s b. loop e t u a s = Some b \<Longrightarrow> e = env \<and> t = token \<longrightarrow> u \<notin> S"
    assume body: "(if u = [] then Some (Inr a, s)
      else case http_NewRequest e GET u of
        Some err \<Rightarrow> Some (Inl err, s)
      | None \<Rightarrow>
          (case Do e (list_request t u) s of
             (Inl err, st1) \<Rightarrow> Some (Inl err, st1)
           | (Inr rsp, st1) \<Rightarrow>
               (case Body rsp of
                  Inl err \<Rightarrow> Some (Inl err, st1)
                | Inr body \<Rightarrow>
                    (case json_Unmarshal_Page e body of
                       Inl err \<Rightarrow> Some (Inl err, Body_Close st1)
                     | Inr page \<Rightarrow>
                         loop e t (Next page) (a @ Results page) (Body_Close st1))))) = Some y"
    show "e = env \<and> t = token \<longrightarrow> u \<notin> S"
    proof (intro impI notI)
      assume et: "e = env \<and> t = token" and u: "u \<in> S"
      with assms(2) obtain rsp w1 body p where
        ne: "u \<noteq> []" and nr: "http_NewRequest e GET u = None"
        and cd: "client_Do e (list_request t u) (world s) = (Inr rsp, w1)"
        and bd: "Body rsp = Inr body" and up: "json_Unmarshal_Page e body = Inr p"
        and nx: "Next p \<in> S"
        by blast
      from body have "loop e t (Next p) (a @ Results p)
          (Body_Close (snd (Do e (list_request t u) s))) = Some y"
        by (simp add: ne nr cd bd up Do_def)
      from IH [OF this] et nx show False by simp
    qed
  qed
  with assms(1) show False by simp
qed

lemma serves_two_pages:
  "serves (demo_env two_pages) ''jwt'' 1578009600000000000 page1_url [page1, page2] []
     1578009600000000000"
  by (simp add: demo_defs two_pages_def page1_def page2_def)

text \<open>
  C1. When the registry serves \<open>N\<close> pages, each page's \<open>next\<close> being the URL of the one
  after it and the last \<open>next\<close> empty, \<^verbatim>\<open>List\<close> returns what decoding the concatenation
  of the pages' results, in page order and in the order within each page, into the
  caller's collection gives. It sends exactly one request per page, in order; for a
  single page with an empty \<open>next\<close> that is one request and no other.
\<close>

theorem List_concatenates_pages:
  assumes "serves env token (world st) url pages [] w'"
    and "json_Marshal env (concat (map Results pages)) = Inr resultsRaw"
    and "json_Unmarshal env resultsRaw results = (err, out)"
  shows "List env token url results st = Some (err, out, after_pages token url pages w' st) \<and>
         sent (after_pages token url pages w' st) =
           sent st @ map (list_request token) (page_urls url pages) \<and>
         length (page_urls url pages) = length pages"
  using assms by (simp add: List_def List_loop_ended length_page_urls)

theorem List_concatenates_pages_witness:
  "serves (demo_env two_pages) ''jwt'' (world demo_state) page1_url [page1, page2] []
     1578009600000000000 \<and>
   List (demo_env two_pages) ''jwt'' page1_url [] demo_state =
     Some (None, demo_tags,
           demo_state\<lparr>sent := [list_request ''jwt'' page1_url, list_request ''jwt'' page2_url]\<rparr>)"
proof -
  have h1: "serves (demo_env two_pages) ''jwt'' (world demo_state) page1_url [page1, page2] []
     1578009600000000000"
    using serves_two_pages by (simp add: demo_state_def)
  have h2: "json_Marshal (demo_env two_pages) (concat (map Results [page1, page2])) =
      Inr (JSON (JArray (map (marshal demo_FormatFloat) (Results page1 @ Results page2))))"
    by (simp add: demo_env_def registry_def go_Marshal_def)
  have h3: "json_Unmarshal (demo_env two_pages)
      (JSON (JArray (map (marshal demo_FormatFloat) (Results page1 @ Results page2)))) [] =
      (None, demo_tags)"
    by (simp add: demo_defs page1_def page2_def demo_tags_def run_defs)
  from List_concatenates_pages [OF h1 h2 h3] h1 show ?thesis
    by (simp add: after_pages_def demo_state_def page1_def)
qed

text \<open>
  C8. The loop ends when the URL is empty: on a chain of pages whose last \<open>next\<close> is
  empty, \<^verbatim>\<open>List\<close> returns. Nothing else stops it: when the \<open>next\<close> fields never leave a
  set of non-empty URLs (a cycle, for instance), \<^verbatim>\<open>List\<close> does not return.
\<close>

theorem List_returns_iff_chain_ends:
  "(serves env token (world st) url pages [] w' \<longrightarrow>
      (\<exists>out. List env token url results st = Some out)) \<and>
   (url \<in> S \<and>
    (\<forall>u\<in>S. u \<noteq> [] \<and> http_NewRequest env GET u = None \<and>
       (\<forall>w. \<exists>rsp w1 body p. client_Do env (list_request token u) w = (Inr rsp, w1) \<and>
          Body rsp = Inr body \<and> json_Unmarshal_Page env body = Inr p \<and> Next p \<in> S)) \<longrightarrow>
      List env token url results st = None)"
proof (intro conjI impI)
  assume "serves env token (world st) url pages [] w'"
  then have "List_loop env token url [] st =
      Some (Inr (concat (map Results pages)), after_pages token url pages w' st)"
    by (rule List_loop_ended)
  then show "\<exists>out. List env token url results st = Some out"
    by (simp add: List_def split: sum.split prod.split)
next
  assume "url \<in> S \<and>
    (\<forall>u\<in>S. u \<noteq> [] \<and> http_NewRequest env GET u = None \<and>
       (\<forall>w. \<exists>rsp w1 body p. client_Do env (list_request token u) w = (Inr rsp, w1) \<and>
          Body rsp = Inr body \<and> json_Unmarshal_Page env body = Inr p \<and> Next p \<in> S))"
  then have "List_loop env token url [] st = None"
    using List_loop_never_ends [of url S env token "[]" st] by blast
  then show "List env token url results st = None"
    by (simp add: List_def)
qed

theorem List_returns_iff_chain_ends_witness:
  "serves (demo_env two_pages) ''jwt'' (world demo_state) page1_url [page1, page2] []
     1578009600000000000 \<and>
   (\<exists>out. List (demo_env two_pages) ''jwt'' page1_url [] demo_state = Some out) \<and>
   List (demo_env one_page_forever) ''jwt'' page1_url [] demo_state = None"
proof -
  have h1: "serves (demo_env two_pages) ''jwt'' (world demo_state) page1_url [page1, page2] []
     1578009600000000000"
    using serves_two_pages by (simp add: demo_state_def)
  have h2: "page1_url \<in> {page1_url} \<and>
    (\<forall>u\<in>{page1_url}. u \<noteq> [] \<and> http_NewRequest (demo_env one_page_forever) GET u = None \<and>
       (\<forall>w. \<exists>rsp w1 body p.
          client_Do (demo_env one_page_forever) (list_request ''jwt'' u) w = (Inr rsp, w1) \<and>
          Body rsp = Inr body \<and> json_Unmarshal_Page (demo_env one_page_forever) body = Inr p \<and>
          Next p \<in> {page1_url}))"
    by (simp add: demo_defs one_page_forever_def)
  from List_returns_iff_chain_ends [where env = "demo_env two_pages" and token = "''jwt''"
      and st = demo_state and url = page1_url and pages = "[page1, page2]"
      and w' = 1578009600000000000 and results = "[]"] h1
  have a: "\<exists>out. List (demo_env two_pages) ''jwt'' page1_url [] demo_state = Some out"
    by blast
  from List_returns_iff_chain_ends [where env = "demo_env one_page_forever"
      and token = "''jwt''" and st = demo_state and url = page1_url and S = "{page1_url}"
      and results = "[]"] h2
  have b: "List (demo_env one_page_forever) ''jwt'' page1_url [] demo_state = None"
    by blast
  from h1 a b show ?thesis by blast
qed

subsection \<open>Errors in List\<close>

text \<open>What the loop returns when the step for a non-empty URL fails.\<close>

lemma List_loop_fails:
  assumes "url \<noteq> []"
  shows "http_NewRequest env GET url = Some err \<Longrightarrow>
           List_loop env token url acc st = Some (Inl err, st)"
    and "http_NewRequest env GET url = None \<Longrightarrow>
         client_Do env (list_request token url) (world st) = (Inl err, w) \<Longrightarrow>
           List_loop env token url acc st =
             Some (Inl err, after_request token url w st)"
    and "http_NewRequest env GET url = None \<Longrightarrow>
         client_Do env (list_request token url) (world st) = (Inr rsp, w) \<Longrightarrow>
         Body rsp = Inl err \<Longrightarrow>
           List_loop env token url acc st =
             Some (Inl err, (after_request token url w st)
                               \<lparr>open_bodies := Suc (open_bodies st)\<rparr>)"
    and "http_NewRequest env GET url = None \<Longrightarrow>
         client_Do env (list_request token url) (world st) = (Inr rsp, w) \<Longrightarrow>
         Body rsp = Inr body \<Longrightarrow> json_Unmarshal_Page env body = Inl err \<Longrightarrow>
           List_loop env token url acc st =
             Some (Inl err, after_request token url w st)"
  using assms by (subst List_loop.simps; simp add: Do_def Body_Close_def after_request_def)+


lemma serves_first_page:
  "serves (demo_env bad_second_page) ''jwt'' 1578009600000000000 page1_url [page1] page2_url
     1578009600000000000"
  by (simp add: demo_defs bad_second_page_def page1_def)

lemma serves_odd_page:
  "serves (demo_env odd_result) ''jwt'' 1578009600000000000 page1_url [odd_page] []
     1578009600000000000"
  by (simp add: demo_defs odd_result_def odd_page_def)

text \<open>
  C3, as the code has it. Let the registry serve some pages (possibly none) and let the
  next step fail: the request cannot be built, the transport fails, the body cannot be
  read, or the page cannot be decoded. Then \<^verbatim>\<open>List\<close> returns that error at once (the
  failed request is the last one sent) and the caller's collection is as it was. The same
  holds when the walk ends and re-encoding the accumulated records fails. When decoding
  into the caller's collection fails, \<^verbatim>\<open>List\<close> returns that error too, and the
  collection is what the decoder left in it. (Whether a body is left open is the subject
  of C9 and is not said here.)
\<close>

theorem List_error_aborts:
  assumes "serves env token (world st) url pages url' w'"
  shows
   "(url' \<noteq> [] \<and> http_NewRequest env GET url' = Some err \<longrightarrow>
       List env token url results st =
         Some (Some err, results, after_pages token url pages w' st)) \<and>
    (url' \<noteq> [] \<and> http_NewRequest env GET url' = None \<and>
     client_Do env (list_request token url') w' = (Inl err, w'') \<longrightarrow>
       List env token url results st =
         Some (Some err, results,
               after_request token url' w'' (after_pages token url pages w' st))) \<and>
    (url' \<noteq> [] \<and> http_NewRequest env GET url' = None \<and>
     client_Do env (list_request token url') w' = (Inr rsp, w'') \<and> Body rsp = Inl err \<longrightarrow>
       (\<exists>n. List env token url results st =
          Some (Some err, results,
                (after_request token url' w'' (after_pages token url pages w' st))
                  \<lparr>open_bodies := n\<rparr>))) \<and>
    (url' \<noteq> [] \<and> http_NewRequest env GET url' = None \<and>
     client_Do env (list_request token url') w' = (Inr rsp, w'') \<and> Body rsp = Inr body \<and>
     json_Unmarshal_Page env body = Inl err \<longrightarrow>
       List env token url results st =
         Some (Some err, results,
               after_request token url' w'' (after_pages token url pages w' st))) \<and>
    (url' = [] \<and> json_Marshal env (concat (map Results pages)) = Inl err \<longrightarrow>
       List env token url results st =
         Some (Some err, results, after_pages token url pages w' st)) \<and>
    (url' = [] \<and> json_Marshal env (concat (map Results pages)) = Inr resultsRaw \<and>
     json_Unmarshal env resultsRaw results = (Some err, results') \<longrightarrow>
       List env token url results st =
         Some (Some err, results', after_pages token url pages w' st))"
proof -
  let ?st = "after_pages token url pages w' st"
  have loop: "List_loop env token url [] st =
      List_loop env token url' (concat (map Results pages)) ?st"
    using List_loop_serves [OF assms, of "[]"] by simp
  show ?thesis
    by (auto simp add: List_def loop List_loop_empty List_loop_fails)
qed

theorem List_error_aborts_witness:
  "serves (demo_env bad_second_page) ''jwt'' (world demo_state) page1_url [page1] page2_url
     1578009600000000000 \<and>
   List (demo_env bad_second_page) ''jwt'' page1_url [] demo_state =
     Some (Some syntax_error, [],
           demo_state\<lparr>sent := [list_request ''jwt'' page1_url, list_request ''jwt'' page2_url]\<rparr>) \<and>
   serves (demo_env odd_result) ''jwt'' (world demo_state) page1_url [odd_page] []
     1578009600000000000 \<and>
   List (demo_env odd_result) ''jwt'' page1_url [] demo_state =
     Some (Some type_error, [zero_Tag], demo_state\<lparr>sent := [list_request ''jwt'' page1_url]\<rparr>)"
proof -
  have h1: "serves (demo_env bad_second_page) ''jwt'' (world demo_state) page1_url [page1]
      page2_url 1578009600000000000"
    using serves_first_page by (simp add: demo_state_def)
  have h2: "page2_url \<noteq> [] \<and> http_NewRequest (demo_env bad_second_page) GET page2_url = None \<and>
      client_Do (demo_env bad_second_page) (list_request ''jwt'' page2_url) 1578009600000000000 =
        (Inr \<lparr>StatusCode = 200, Body = Inr NotJSON\<rparr>, 1578009600000000000) \<and>
      Body \<lparr>StatusCode = 200, Body = Inr NotJSON\<rparr> = Inr NotJSON \<and>
      json_Unmarshal_Page (demo_env bad_second_page) NotJSON = Inl syntax_error"
    by (simp add: demo_defs bad_second_page_def)
  have a: "List (demo_env bad_second_page) ''jwt'' page1_url [] demo_state =
     Some (Some syntax_error, [],
           demo_state\<lparr>sent := [list_request ''jwt'' page1_url, list_request ''jwt'' page2_url]\<rparr>)"
    using List_error_aborts [OF h1, where err = syntax_error and results = "[]"
        and w'' = 1578009600000000000 and body = NotJSON
        and rsp = "\<lparr>StatusCode = 200, Body = Inr NotJSON\<rparr>"] h2
    by (simp add: after_pages_def after_request_def demo_state_def page1_def)
  have h3: "serves (demo_env odd_result) ''jwt'' (world demo_state) page1_url [odd_page] []
      1578009600000000000"
    using serves_odd_page by (simp add: demo_state_def)
  have h4: "json_Marshal (demo_env odd_result) (concat (map Results [odd_page])) =
        Inr (JSON (JArray [JNumber ''5''])) \<and>
      json_Unmarshal (demo_env odd_result) (JSON (JArray [JNumber ''5''])) [] =
        (Some type_error, [zero_Tag])"
    by (simp add: demo_defs odd_page_def)
  have b: "List (demo_env odd_result) ''jwt'' page1_url [] demo_state =
     Some (Some type_error, [zero_Tag], demo_state\<lparr>sent := [list_request ''jwt'' page1_url]\<rparr>)"
    using List_error_aborts [OF h3, where err = type_error and results = "[]"
        and resultsRaw = "JSON (JArray [JNumber ''5''])" and results' = "[zero_Tag]"] h4
    by (simp add: after_pages_def demo_state_def)
  from h1 a h3 b show ?thesis by blast
qed

text \<open>
  C3 as stated does not hold for the last stage: here the only page lists the number 5,
  decoding it into the \<^verbatim>\<open>TagList\<close> fails, and the caller's empty list has become a list
  of one zero tag.
\<close>

theorem List_decode_failure_changes_results:
  "List (demo_env odd_result) ''jwt'' page1_url [] demo_state =
     Some (Some type_error, [zero_Tag], demo_state\<lparr>sent := [list_request ''jwt'' page1_url]\<rparr>) \<and>
   [zero_Tag] \<noteq> ([] :: TagList)"
  by (simp add: List_def List_loop.simps demo_defs odd_result_def type_error_def)

text \<open>
  C9 fails on the code: when reading the body fails, \<^verbatim>\<open>List\<close> returns at line 103,
  before the \<^verbatim>\<open>rsp.Body.Close()\<close> of line 106. Here the body of the first page cannot be
  read, and \<^verbatim>\<open>List\<close> returns with one body open.
\<close>

theorem List_leaves_body_open_on_read_failure:
  "List (demo_env unreadable_page) ''jwt'' page1_url [] demo_state =
     Some (Some ''unexpected EOF'', [],
           demo_state\<lparr>sent := [list_request ''jwt'' page1_url], open_bodies := 1\<rparr>)"
  by (simp add: List_def List_loop.simps demo_defs unreadable_page_def)

subsection \<open>The run after the login\<close>

lemma reap_append:
  "reap env user img token threshold (xs @ ys) st =
     (case reap env user img token threshold xs st of
        (Some code, st') \<Rightarrow> (Some code, st')
      | (None, st') \<Rightarrow> reap env user img token threshold ys st')"
  by (induction xs arbitrary: st) (simp_all add: Let_def split: prod.split option.split sum.split)

lemma reap_young:
  assumes "time_Now env (world st) = (now, w1)"
    and "\<not> sint threshold < sint (time_Sub now (LastUpdated tag))"
  shows "reap env user img token threshold (tag # tags) st =
           reap env user img token threshold tags (st\<lparr>world := w1\<rparr>)"
  using assms by (simp add: Since_def time_Since_def)

lemma reap_old:
  assumes "time_Now env (world st) = (now, w1)"
    and "sint threshold < sint (time_Sub now (LastUpdated tag))"
    and "time_Now env w1 = (now', w2)"
  shows "reap env user img token threshold (tag # tags) st =
     (case http_NewRequest env DELETE (tag_url user img (Name tag)) of
        Some err \<Rightarrow>
          (Some 1, println [Str ''unable to create delete request:'', Err err]
                     (announced tag now' w2 st))
      | None \<Rightarrow>
          (case client_Do env (delete_request user img token (Name tag)) w2 of
             (Inl err, w3) \<Rightarrow>
               (Some 1, println [Str ''unable to perform delete request:'', Err err]
                          (after_delete user img token tag w3 (announced tag now' w2 st)))
           | (Inr rsp, w3) \<Rightarrow>
               reap env user img token threshold tags
                 (if StatusCode rsp \<noteq> 204
                  then println [Str ''unexpected status code'', Num (StatusCode rsp)]
                         (after_delete user img token tag w3 (announced tag now' w2 st))
                  else after_delete user img token tag w3 (announced tag now' w2 st))))"
  using assms
  by (simp add: Since_def time_Since_def Do_def Body_Close_def println_def announced_def
      after_delete_def split: option.split prod.split sum.split)

lemma main_listed:
  assumes "main_authenticate env fl st = (Inr (threshold, a), st1)"
    and "List env (Token a) (tags_url (username fl) (image fl)) [] st1 = Some (None, tags, st2)"
  shows "main env fl st =
     (case reap env (username fl) (image fl) (Token a) threshold tags st2 of
        (Some code, st3) \<Rightarrow> Some (code, st3)
      | (None, st3) \<Rightarrow> Some (0, st3))"
  using assms by (simp add: main_def)

lemma main_authenticate_sent:
  "main_authenticate env fl st = (Inr (threshold, a), st1) \<Longrightarrow>
   \<exists>body. sent st1 = sent st @ [login_request body]"
  by (auto simp add: main_authenticate_def Do_def Body_Close_def println_def
      split: sum.splits option.splits prod.splits)

lemma Do_sent: "Do env req st = (r, st1) \<Longrightarrow> sent st1 = sent st @ [req]"
  by (auto simp add: Do_def split: prod.splits sum.splits)

lemma List_loop_sent_step:
  fixes loop :: "('a, 'b, 'c, 'd) env \<Rightarrow> string \<Rightarrow> string \<Rightarrow> 'c list \<Rightarrow> ('a, 'b) state
      \<Rightarrow> ((error + 'c list) \<times> ('a, 'b) state) option"
  assumes IH: "\<And>e t u a s b. loop e t u a s = Some b \<Longrightarrow>
      \<exists>urls. sent (snd b) = sent s @ map (list_request t) urls"
  and body: "(if u = [] then Some (Inr a, s)
      else case http_NewRequest e GET u of
        Some err \<Rightarrow> Some (Inl err, s)
      | None \<Rightarrow>
          (case Do e (list_request t u) s of
             (Inl err, st1) \<Rightarrow> Some (Inl err, st1)
           | (Inr rsp, st1) \<Rightarrow>
               (case Body rsp of
                  Inl err \<Rightarrow> Some (Inl err, st1)
                | Inr body \<Rightarrow>
                    (case json_Unmarshal_Page e body of
                       Inl err \<Rightarrow> Some (Inl err, Body_Close st1)
                     | Inr page \<Rightarrow>
                         loop e t (Next page) (a @ Results page) (Body_Close st1))))) = Some y"
  shows "\<exists>urls. sent (snd y) = sent s @ map (list_request t) urls"
proof -
  obtain r s1 where d: "Do e (list_request t u) s = (r, s1)"
    by (cases "Do e (list_request t u) s")
  have s1: "sent s1 = sent s @ map (list_request t) [u]"
    using Do_sent [OF d] by simp
  then have s1c: "sent (Body_Close s1) = sent s @ map (list_request t) [u]"
    by (simp add: Body_Close_def)
  have "snd y = s \<or> snd y = s1 \<or> snd y = Body_Close s1 \<or>
     (\<exists>page :: 'c Page. loop e t (Next page) (a @ Results page) (Body_Close s1) = Some y)"
    using body d by (auto split: if_splits option.splits sum.splits)
  then consider "snd y = s" | "snd y = s1" | "snd y = Body_Close s1"
    | page :: "'c Page" where "loop e t (Next page) (a @ Results page) (Body_Close s1) = Some y"
    by blast
  then show ?thesis
  proof cases
    case 1
    then have "sent (snd y) = sent s @ map (list_request t) []" by simp
    then show ?thesis by (rule exI)
  next
    case 2
    with s1 have "sent (snd y) = sent s @ map (list_request t) [u]" by simp
    then show ?thesis by (rule exI)
  next
    case 3
    with s1c have "sent (snd y) = sent s @ map (list_request t) [u]" by simp
    then show ?thesis by (rule exI)
  next
    case 4
    from IH [OF 4] obtain urls where
      "sent (snd y) = sent (Body_Close s1) @ map (list_request t) urls" by blast
    with s1c have "sent (snd y) = sent s @ map (list_request t) (u # urls)" by simp
    then show ?thesis by (rule exI)
  qed
qed

lemma List_loop_sent:
  assumes "List_loop env token url acc st = Some y"
  shows "\<exists>urls. sent (snd y) = sent st @ map (list_request token) urls"
  by (rule List_loop.raw_induct
    [where P = "\<lambda>e t u a s y. \<exists>urls. sent (snd y) = sent s @ map (list_request t) urls",
     OF _ assms]) (rule List_loop_sent_step)

lemma List_sent:
  assumes "List env token url results st = Some (err, out, st')"
  shows "\<exists>urls. sent st' = sent st @ map (list_request token) urls"
proof -
  from assms obtain r where "List_loop env token url [] st = Some (r, st')"
    by (auto simp add: List_def split: option.splits sum.splits prod.splits)
  from List_loop_sent [OF this] show ?thesis by simp
qed

text \<open>The concrete runs get past the login and the listing.\<close>

lemma demo_login:
  "main_authenticate (demo_env (demo_table first second deleted)) demo_flags demo_state =
     (Inr (86400000000000, jwt), logged_in)"
  by (simp add: main_authenticate_def demo_defs run_defs)

lemma demo_tags_url: "tags_url (username demo_flags) (image demo_flags) = page1_url"
  by (simp add: demo_defs)

lemma demo_listing:
  "List (demo_env (demo_table (answer page1_json) (answer page2_json) deleted)) ''jwt''
     page1_url [] logged_in = Some (None, [v1, v2, v3, v4], listed)"
  by (simp add: List_def List_loop.simps demo_defs run_defs)

lemma demo_Now: "time_Now (demo_env table) w = (w, w)"
  by (simp add: demo_env_def registry_def)

lemma demo_world: "world listed = 1578009600000000000" "world reaped_v1 = 1578009600000000000"
  by (simp_all add: run_defs demo_state_def)

lemma v1_is_old: "sint (86400000000000 :: duration) < sint (time_Sub 1578009600000000000 (LastUpdated v1))"
  by (simp add: time_Sub_def v1_def)

lemma rubout_is_old:
  "sint (86400000000000 :: duration) < sint (time_Sub 1578009600000000000 (LastUpdated rubout))"
  by (simp add: time_Sub_def rubout_def)

lemma odd_name_listing:
  "List (demo_env odd_name) ''jwt'' page1_url [] logged_in = Some (None, [rubout], listed_one)"
  by (simp add: List_def List_loop.simps demo_defs run_defs odd_name_def)

lemma v4_is_old: "sint (86400000000000 :: duration) < sint (time_Sub 1578009600000000000 (LastUpdated v4))"
  by (simp add: time_Sub_def v4_def)

lemma reap_three:
  "reap (demo_env two_pages) ''u'' ''i'' ''jwt'' 86400000000000 [v1, v2, v3] listed =
     (None, reaped_v1)"
  by (simp add: demo_defs run_defs two_pages_def)

lemma reap_two:
  "reap (demo_env two_pages) ''u'' ''i'' ''jwt'' 86400000000000 [v1, v2] listed =
     (None, reaped_v1)"
  by (simp add: demo_defs run_defs two_pages_def)

lemma reap_rest:
  "reap (demo_env two_pages) ''u'' ''i'' ''jwt'' 86400000000000 [v2, v3, v4] reaped_v1 =
     (None, reaped_v4)"
  by (simp add: demo_defs run_defs two_pages_def)

lemma v3_age:
  "sint (time_Sub 1578009600000000000 (LastUpdated v3)) = sint (86400000000000 :: duration)"
  by (simp add: time_Sub_def v3_def)

lemma v4_age:
  "sint (time_Sub 1578009600000000000 (LastUpdated v4)) = sint (86400000000000 :: duration) + 1"
  by (simp add: time_Sub_def v4_def)

text \<open>
  C4. When the login succeeded and \<^verbatim>\<open>List\<close> returns an error, \<^verbatim>\<open>main\<close> prints the line
  \<^verbatim>\<open>unable to list tags:\<close> with the error and exits with code 0; nothing is sent after
  \<^verbatim>\<open>List\<close> returned, and no request of the whole run is a DELETE.
\<close>

theorem listing_failure_exits_zero:
  assumes "main_authenticate env fl st = (Inr (threshold, a), st1)"
    and "List env (Token a) (tags_url (username fl) (image fl)) [] st1 =
           Some (Some err, tags, st2)"
  shows "main env fl st = Some (0, println [Str ''unable to list tags:'', Err err] st2) \<and>
         (\<forall>q \<in> set (issued st (println [Str ''unable to list tags:'', Err err] st2)).
            req_verb q \<noteq> DELETE)"
proof -
  from main_authenticate_sent [OF assms(1)] obtain body where
    a: "sent st1 = sent st @ [login_request body]" by blast
  from List_sent [OF assms(2)] obtain urls where
    b: "sent st2 = sent st1 @ map (list_request (Token a)) urls" by blast
  have "issued st (println [Str ''unable to list tags:'', Err err] st2) =
      login_request body # map (list_request (Token a)) urls"
    by (simp add: issued_def println_def a b)
  moreover have "main env fl st = Some (0, println [Str ''unable to list tags:'', Err err] st2)"
    using assms by (simp add: main_def)
  ultimately show ?thesis
    by (auto simp add: login_request_def list_request_def)
qed

theorem listing_failure_exits_zero_witness:
  "main_authenticate (demo_env bad_second_page) demo_flags demo_state =
     (Inr (86400000000000, jwt), logged_in) \<and>
   List (demo_env bad_second_page) (Token jwt) (tags_url (username demo_flags) (image demo_flags))
     [] logged_in = Some (Some syntax_error, [], listed) \<and>
   main (demo_env bad_second_page) demo_flags demo_state =
     Some (0, println [Str ''unable to list tags:'', Err syntax_error] listed)"
proof -
  have h1: "main_authenticate (demo_env bad_second_page) demo_flags demo_state =
     (Inr (86400000000000, jwt), logged_in)"
    unfolding bad_second_page_def by (rule demo_login)
  have h2: "List (demo_env bad_second_page) (Token jwt)
     (tags_url (username demo_flags) (image demo_flags)) [] logged_in =
       Some (Some syntax_error, [], listed)"
    by (simp add: List_def List_loop.simps demo_defs run_defs bad_second_page_def)
  from listing_failure_exits_zero [OF h1 h2] h1 h2 show ?thesis by simp
qed


text \<open>
  C5. Let the loop have come to a tag that is older than the threshold. If the DELETE
  request cannot be built, or if sending it fails, \<^verbatim>\<open>main\<close> prints the error and exits
  with code 1. No request is sent for the tags after it, and none to undo what was sent
  before: since the loop came to this tag it sent nothing in the first case and only the
  failed request in the second.
\<close>

theorem delete_failure_exits_one:
  assumes "main_authenticate env fl st = (Inr (threshold, a), st1)"
    and "List env (Token a) (tags_url (username fl) (image fl)) [] st1 =
           Some (None, pre @ tag # post, st2)"
    and "reap env (username fl) (image fl) (Token a) threshold pre st2 = (None, st3)"
    and "time_Now env (world st3) = (now, w4)"
    and "sint threshold < sint (time_Sub now (LastUpdated tag))"
    and "time_Now env w4 = (now', w5)"
  shows
   "(http_NewRequest env DELETE (tag_url (username fl) (image fl) (Name tag)) = Some err \<longrightarrow>
       main env fl st =
         Some (1, println [Str ''unable to create delete request:'', Err err]
                    (announced tag now' w5 st3)) \<and>
       issued st3 (println [Str ''unable to create delete request:'', Err err]
                    (announced tag now' w5 st3)) = []) \<and>
    (http_NewRequest env DELETE (tag_url (username fl) (image fl) (Name tag)) = None \<and>
     client_Do env (delete_request (username fl) (image fl) (Token a) (Name tag)) w5 =
       (Inl err, w6) \<longrightarrow>
       main env fl st =
         Some (1, println [Str ''unable to perform delete request:'', Err err]
                    (after_delete (username fl) (image fl) (Token a) tag w6
                       (announced tag now' w5 st3))) \<and>
       issued st3 (println [Str ''unable to perform delete request:'', Err err]
                    (after_delete (username fl) (image fl) (Token a) tag w6
                       (announced tag now' w5 st3))) =
         [delete_request (username fl) (image fl) (Token a) (Name tag)])"
  using main_listed [OF assms(1,2)] assms(3) reap_old [OF assms(4,5,6)]
  by (auto simp add: reap_append issued_def println_def announced_def after_delete_def)

theorem delete_failure_exits_one_witness:
  "main_authenticate (demo_env delete_fails) demo_flags demo_state =
     (Inr (86400000000000, jwt), logged_in) \<and>
   List (demo_env delete_fails) (Token jwt) (tags_url (username demo_flags) (image demo_flags))
     [] logged_in = Some (None, [] @ v1 # [v2, v3, v4], listed) \<and>
   main (demo_env delete_fails) demo_flags demo_state =
     Some (1, println [Str ''unable to perform delete request:'', Err ''connection reset by peer'']
                (after_delete ''u'' ''i'' ''jwt'' v1 1578009600000000000
                   (announced v1 1578009600000000000 1578009600000000000 listed))) \<and>
   List (demo_env odd_name) (Token jwt) (tags_url (username demo_flags) (image demo_flags))
     [] logged_in = Some (None, [] @ rubout # [], listed_one) \<and>
   main (demo_env odd_name) demo_flags demo_state =
     Some (1, println [Str ''unable to create delete request:'',
                       Err ''net/url: invalid control character in URL'']
                (announced rubout 1578009600000000000 1578009600000000000 listed_one))"
proof -
  have a1: "main_authenticate (demo_env delete_fails) demo_flags demo_state =
     (Inr (86400000000000, jwt), logged_in)"
    unfolding delete_fails_def by (rule demo_login)
  have a2: "List (demo_env delete_fails) (Token jwt)
      (tags_url (username demo_flags) (image demo_flags)) [] logged_in =
        Some (None, [] @ v1 # [v2, v3, v4], listed)"
    using demo_listing [of "Inl ''connection reset by peer''"]
    by (simp add: delete_fails_def demo_tags_url jwt_def)
  have a3: "reap (demo_env delete_fails) (username demo_flags) (image demo_flags) (Token jwt)
      86400000000000 [] listed = (None, listed)"
    by simp
  have a4: "time_Now (demo_env delete_fails) (world listed) =
      (1578009600000000000, 1578009600000000000)"
    by (simp add: demo_Now demo_world)
  have a6: "time_Now (demo_env delete_fails) 1578009600000000000 =
      (1578009600000000000, 1578009600000000000)"
    by (simp add: demo_Now)
  have a7: "http_NewRequest (demo_env delete_fails) DELETE
        (tag_url (username demo_flags) (image demo_flags) (Name v1)) = None \<and>
      client_Do (demo_env delete_fails)
        (delete_request (username demo_flags) (image demo_flags) (Token jwt) (Name v1))
        1578009600000000000 = (Inl ''connection reset by peer'', 1578009600000000000)"
    by (simp add: demo_defs run_defs delete_fails_def)
  have a: "main (demo_env delete_fails) demo_flags demo_state =
     Some (1, println [Str ''unable to perform delete request:'', Err ''connection reset by peer'']
                (after_delete ''u'' ''i'' ''jwt'' v1 1578009600000000000
                   (announced v1 1578009600000000000 1578009600000000000 listed)))"
    using delete_failure_exits_one [OF a1 a2 a3 a4 v1_is_old a6,
        where err = "''connection reset by peer''" and ?w6.0 = 1578009600000000000] a7
    by (simp add: demo_flags_def jwt_def)
  have b1: "main_authenticate (demo_env odd_name) demo_flags demo_state =
     (Inr (86400000000000, jwt), logged_in)"
    unfolding odd_name_def by (rule demo_login)
  have b2: "List (demo_env odd_name) (Token jwt)
      (tags_url (username demo_flags) (image demo_flags)) [] logged_in =
        Some (None, [] @ rubout # [], listed_one)"
    using odd_name_listing by (simp add: demo_tags_url jwt_def)
  have b3: "reap (demo_env odd_name) (username demo_flags) (image demo_flags) (Token jwt)
      86400000000000 [] listed_one = (None, listed_one)"
    by simp
  have b4: "time_Now (demo_env odd_name) (world listed_one) =
      (1578009600000000000, 1578009600000000000)"
    by (simp add: demo_Now run_defs demo_state_def)
  have b6: "time_Now (demo_env odd_name) 1578009600000000000 =
      (1578009600000000000, 1578009600000000000)"
    by (simp add: demo_Now)
  have b7: "http_NewRequest (demo_env odd_name) DELETE
        (tag_url (username demo_flags) (image demo_flags) (Name rubout)) =
      Some ''net/url: invalid control character in URL''"
    by (simp add: demo_defs run_defs)
  have b: "main (demo_env odd_name) demo_flags demo_state =
     Some (1, println [Str ''unable to create delete request:'',
                       Err ''net/url: invalid control character in URL'']
                (announced rubout 1578009600000000000 1578009600000000000 listed_one))"
    using delete_failure_exits_one [OF b1 b2 b3 b4 rubout_is_old b6,
        where err = "''net/url: invalid control character in URL''"] b7
    by simp
  from a1 a2 a b2 b show ?thesis by blast
qed


text \<open>
  C6. Let the loop have come to a tag that is older than the threshold and let the DELETE
  request be answered. With a status other than 204 the line \<^verbatim>\<open>unexpected status code\<close>
  is printed; with 204 nothing is printed. In both cases the loop goes on with the tags
  after this one, and when it comes to its end \<^verbatim>\<open>main\<close> exits with code 0.
\<close>

theorem unexpected_status_continues:
  assumes "main_authenticate env fl st = (Inr (threshold, a), st1)"
    and "List env (Token a) (tags_url (username fl) (image fl)) [] st1 =
           Some (None, pre @ tag # post, st2)"
    and "reap env (username fl) (image fl) (Token a) threshold pre st2 = (None, st3)"
    and "time_Now env (world st3) = (now, w4)"
    and "sint threshold < sint (time_Sub now (LastUpdated tag))"
    and "time_Now env w4 = (now', w5)"
    and "http_NewRequest env DELETE (tag_url (username fl) (image fl) (Name tag)) = None"
    and "client_Do env (delete_request (username fl) (image fl) (Token a) (Name tag)) w5 =
           (Inr rsp, w6)"
    and "st4 = after_delete (username fl) (image fl) (Token a) tag w6 (announced tag now' w5 st3)"
  shows
   "(StatusCode rsp \<noteq> 204 \<longrightarrow>
       reap env (username fl) (image fl) (Token a) threshold (tag # post) st3 =
       reap env (username fl) (image fl) (Token a) threshold post
         (println [Str ''unexpected status code'', Num (StatusCode rsp)] st4) \<and>
       (\<forall>st5. reap env (username fl) (image fl) (Token a) threshold post
                (println [Str ''unexpected status code'', Num (StatusCode rsp)] st4) = (None, st5)
          \<longrightarrow> main env fl st = Some (0, st5))) \<and>
    (StatusCode rsp = 204 \<longrightarrow>
       reap env (username fl) (image fl) (Token a) threshold (tag # post) st3 =
       reap env (username fl) (image fl) (Token a) threshold post st4 \<and>
       (\<forall>st5. reap env (username fl) (image fl) (Token a) threshold post st4 = (None, st5)
          \<longrightarrow> main env fl st = Some (0, st5)))"
  using main_listed [OF assms(1,2)] assms(3,7,8,9) reap_old [OF assms(4,5,6)]
  by (auto simp add: reap_append)

theorem unexpected_status_continues_witness:
  "main_authenticate (demo_env two_pages) demo_flags demo_state =
     (Inr (86400000000000, jwt), logged_in) \<and>
   List (demo_env two_pages) (Token jwt) (tags_url (username demo_flags) (image demo_flags))
     [] logged_in = Some (None, [v1, v2, v3, v4], listed) \<and>
   client_Do (demo_env two_pages) (delete_request ''u'' ''i'' ''jwt'' ''v1'') 1578009600000000000 =
     (Inr \<lparr>StatusCode = 403, Body = Inr NotJSON\<rparr>, 1578009600000000000) \<and>
   reap (demo_env two_pages) ''u'' ''i'' ''jwt'' 86400000000000 [v1, v2, v3, v4] listed =
     reap (demo_env two_pages) ''u'' ''i'' ''jwt'' 86400000000000 [v2, v3, v4] reaped_v1 \<and>
   stdout reaped_v1 = [[Str ''deleting tag'', Str ''v1'', Str ''age'', Dur 172800000000000],
                       [Str ''unexpected status code'', Num 403]] \<and>
   client_Do (demo_env two_pages) (delete_request ''u'' ''i'' ''jwt'' ''v4'') 1578009600000000000 =
     (Inr \<lparr>StatusCode = 204, Body = Inr NotJSON\<rparr>, 1578009600000000000) \<and>
   reap (demo_env two_pages) ''u'' ''i'' ''jwt'' 86400000000000 [v4] reaped_v1 =
     (None, reaped_v4) \<and>
   main (demo_env two_pages) demo_flags demo_state = Some (0, reaped_v4)"
proof -
  let ?E = "demo_env two_pages"
  let ?now = "1578009600000000000 :: int"
  have a1: "main_authenticate ?E demo_flags demo_state = (Inr (86400000000000, jwt), logged_in)"
    unfolding two_pages_def by (rule demo_login)
  have l: "List ?E (Token jwt) (tags_url (username demo_flags) (image demo_flags)) [] logged_in =
      Some (None, [v1, v2, v3, v4], listed)"
    using demo_listing [of "status 403"] by (simp add: two_pages_def demo_tags_url jwt_def)
  have a2: "List ?E (Token jwt) (tags_url (username demo_flags) (image demo_flags)) [] logged_in =
      Some (None, [] @ v1 # [v2, v3, v4], listed)"
    using l by simp
  have a3: "reap ?E (username demo_flags) (image demo_flags) (Token jwt) 86400000000000 []
      listed = (None, listed)"
    by simp
  have a4: "time_Now ?E (world listed) = (?now, ?now)" by (simp add: demo_Now demo_world)
  have a6: "time_Now ?E ?now = (?now, ?now)" by (simp add: demo_Now)
  have a7: "http_NewRequest ?E DELETE
      (tag_url (username demo_flags) (image demo_flags) (Name v1)) = None"
    by (simp add: demo_defs run_defs)
  have c1: "client_Do ?E (delete_request ''u'' ''i'' ''jwt'' ''v1'') ?now =
      (Inr \<lparr>StatusCode = 403, Body = Inr NotJSON\<rparr>, ?now)"
    by (simp add: demo_defs two_pages_def)
  then have a8: "client_Do ?E
      (delete_request (username demo_flags) (image demo_flags) (Token jwt) (Name v1)) ?now =
      (Inr \<lparr>StatusCode = 403, Body = Inr NotJSON\<rparr>, ?now)"
    by (simp add: demo_flags_def jwt_def v1_def)
  have a9: "after_delete ''u'' ''i'' ''jwt'' v1 ?now (announced v1 ?now ?now listed) =
      after_delete (username demo_flags) (image demo_flags) (Token jwt) v1 ?now
        (announced v1 ?now ?now listed)"
    by (simp add: demo_flags_def jwt_def)
  have st: "println [Str ''unexpected status code'', Num 403]
      (after_delete ''u'' ''i'' ''jwt'' v1 ?now (announced v1 ?now ?now listed)) = reaped_v1"
    by (simp add: run_defs demo_defs after_delete_def announced_def)
  from unexpected_status_continues [OF a1 a2 a3 a4 v1_is_old a6 a7 a8 a9] reap_rest
  have a: "reap ?E ''u'' ''i'' ''jwt'' 86400000000000 [v1, v2, v3, v4] listed =
      reap ?E ''u'' ''i'' ''jwt'' 86400000000000 [v2, v3, v4] reaped_v1 \<and>
      main ?E demo_flags demo_state = Some (0, reaped_v4)"
    by (simp add: st demo_flags_def jwt_def)
  have b2: "List ?E (Token jwt) (tags_url (username demo_flags) (image demo_flags)) [] logged_in =
      Some (None, [v1, v2, v3] @ v4 # [], listed)"
    using l by simp
  have b3: "reap ?E (username demo_flags) (image demo_flags) (Token jwt) 86400000000000
      [v1, v2, v3] listed = (None, reaped_v1)"
    using reap_three by (simp add: demo_flags_def jwt_def)
  have b4: "time_Now ?E (world reaped_v1) = (?now, ?now)" by (simp add: demo_Now demo_world)
  have b7: "http_NewRequest ?E DELETE
      (tag_url (username demo_flags) (image demo_flags) (Name v4)) = None"
    by (simp add: demo_defs run_defs)
  have c2: "client_Do ?E (delete_request ''u'' ''i'' ''jwt'' ''v4'') ?now =
      (Inr \<lparr>StatusCode = 204, Body = Inr NotJSON\<rparr>, ?now)"
    by (simp add: demo_defs two_pages_def)
  then have b8: "client_Do ?E
      (delete_request (username demo_flags) (image demo_flags) (Token jwt) (Name v4)) ?now =
      (Inr \<lparr>StatusCode = 204, Body = Inr NotJSON\<rparr>, ?now)"
    by (simp add: demo_flags_def jwt_def v4_def)
  have b9: "reaped_v4 =
      after_delete (username demo_flags) (image demo_flags) (Token jwt) v4 ?now
        (announced v4 ?now ?now reaped_v1)"
    by (simp add: run_defs demo_defs after_delete_def announced_def)
  from unexpected_status_continues [OF a1 b2 b3 b4 v4_is_old a6 b7 b8 b9]
  have b: "reap ?E ''u'' ''i'' ''jwt'' 86400000000000 [v4] reaped_v1 = (None, reaped_v4)"
    by (simp add: demo_flags_def jwt_def)
  have out: "stdout reaped_v1 =
      [[Str ''deleting tag'', Str ''v1'', Str ''age'', Dur 172800000000000],
       [Str ''unexpected status code'', Num 403]]"
    by (simp add: reaped_v1_def)
  from a1 l c1 a out c2 b show ?thesis by blast
qed

text \<open>A difference of instants that fits a duration is that duration.\<close>

lemma time_Sub_fits:
  assumes "- (2 ^ 63) \<le> t - u" and "t - u < 2 ^ 63"
  shows "sint (time_Sub t u) = t - u"
proof -
  have "sint (word_of_int (t - u) :: duration) = signed_take_bit 63 (t - u)"
    by (subst sint_sbintrunc') simp
  also have "\<dots> = t - u"
    using assms by (rule signed_take_bit_int_eq_self)
  finally have "sint (word_of_int (t - u) :: duration) = t - u" .
  moreover from assms have "time_Sub t u = word_of_int (t - u)"
    by (simp add: time_Sub_def)
  ultimately show ?thesis by (simp only:)
qed

text \<open>
  C2, as the code has it. Let the loop have come to a tag, and let its DELETE request be
  one that can be built. The age of the tag is what \<^verbatim>\<open>time.Since\<close> gives when the loop
  reads the clock for it: now minus \<open>LastUpdated\<close>, as a duration. The loop sends the
  DELETE request for the tag if the age is greater than the threshold and sends nothing
  otherwise. An age equal to the threshold sends nothing; an age one nanosecond above the
  threshold sends the request.
\<close>

theorem reap_deletes_iff_older_than_threshold:
  assumes "reap env user img token threshold pre st0 = (None, st)"
    and "time_Now env (world st) = (now, w1)"
    and "http_NewRequest env DELETE (tag_url user img (Name tag)) = None"
  shows
   "issued st (snd (reap env user img token threshold (pre @ [tag]) st0)) =
      (if sint threshold < sint (time_Sub now (LastUpdated tag))
       then [delete_request user img token (Name tag)] else []) \<and>
    (sint (time_Sub now (LastUpdated tag)) = sint threshold \<longrightarrow>
       issued st (snd (reap env user img token threshold (pre @ [tag]) st0)) = []) \<and>
    (sint (time_Sub now (LastUpdated tag)) = sint threshold + 1 \<longrightarrow>
       issued st (snd (reap env user img token threshold (pre @ [tag]) st0)) =
         [delete_request user img token (Name tag)])"
proof -
  have "issued st (snd (reap env user img token threshold (pre @ [tag]) st0)) =
      (if sint threshold < sint (time_Sub now (LastUpdated tag))
       then [delete_request user img token (Name tag)] else [])"
  proof (cases "sint threshold < sint (time_Sub now (LastUpdated tag))")
    case True
    obtain now' w2 where n: "time_Now env w1 = (now', w2)" by (cases "time_Now env w1")
    show ?thesis
      using assms(1,3) True reap_old [OF assms(2) True n, of user img token "[]"]
      by (auto simp add: reap_append issued_def println_def announced_def after_delete_def
          split: prod.splits sum.splits)
  next
    case False
    show ?thesis
      using assms(1) False reap_young [OF assms(2) False, of user img token "[]"]
      by (simp add: reap_append issued_def)
  qed
  then show ?thesis by simp
qed

theorem reap_deletes_iff_older_than_threshold_witness:
  "reap (demo_env two_pages) ''u'' ''i'' ''jwt'' 86400000000000 [v1, v2] listed =
     (None, reaped_v1) \<and>
   1578009600000000000 - LastUpdated v3 = sint (86400000000000 :: duration) \<and>
   issued reaped_v1
     (snd (reap (demo_env two_pages) ''u'' ''i'' ''jwt'' 86400000000000 ([v1, v2] @ [v3]) listed)) =
     [] \<and>
   reap (demo_env two_pages) ''u'' ''i'' ''jwt'' 86400000000000 [v1, v2, v3] listed =
     (None, reaped_v1) \<and>
   1578009600000000000 - LastUpdated v4 = sint (86400000000000 :: duration) + 1 \<and>
   issued reaped_v1
     (snd (reap (demo_env two_pages) ''u'' ''i'' ''jwt'' 86400000000000 ([v1, v2, v3] @ [v4])
        listed)) =
     [delete_request ''u'' ''i'' ''jwt'' ''v4'']"
proof -
  let ?E = "demo_env two_pages"
  let ?now = "1578009600000000000 :: int"
  have n: "time_Now ?E (world reaped_v1) = (?now, ?now)" by (simp add: demo_Now demo_world)
  have r3: "http_NewRequest ?E DELETE (tag_url ''u'' ''i'' (Name v3)) = None"
    by (simp add: demo_defs run_defs)
  have r4: "http_NewRequest ?E DELETE (tag_url ''u'' ''i'' (Name v4)) = None"
    by (simp add: demo_defs run_defs)
  from reap_deletes_iff_older_than_threshold [OF reap_two n r3] v3_age
  have a: "issued reaped_v1
      (snd (reap ?E ''u'' ''i'' ''jwt'' 86400000000000 ([v1, v2] @ [v3]) listed)) = []"
    by blast
  from reap_deletes_iff_older_than_threshold [OF reap_three n r4] v4_age
  have b: "issued reaped_v1
      (snd (reap ?E ''u'' ''i'' ''jwt'' 86400000000000 ([v1, v2, v3] @ [v4]) listed)) =
      [delete_request ''u'' ''i'' ''jwt'' ''v4'']"
    by (simp add: v4_def)
  have d3: "?now - LastUpdated v3 = sint (86400000000000 :: duration)" by (simp add: v3_def)
  have d4: "?now - LastUpdated v4 = sint (86400000000000 :: duration) + 1" by (simp add: v4_def)
  from reap_two d3 a reap_three d4 b show ?thesis by blast
qed

text \<open>
  C2 as stated does not hold for every tag of the list. Here the connection fails when
  \<^verbatim>\<open>v1\<close> is to be deleted: the run ends with code 1, and no DELETE request is sent for
  \<^verbatim>\<open>v4\<close>, which is in the list and older than the threshold.
\<close>

theorem old_tag_after_failure_is_not_deleted:
  "List (demo_env delete_fails) ''jwt'' page1_url [] logged_in =
     Some (None, [v1, v2, v3, v4], listed) \<and>
   sint (86400000000000 :: duration) < sint (time_Sub 1578009600000000000 (LastUpdated v4)) \<and>
   main (demo_env delete_fails) demo_flags demo_state =
     Some (1, println [Str ''unable to perform delete request:'', Err ''connection reset by peer'']
                (after_delete ''u'' ''i'' ''jwt'' v1 1578009600000000000
                   (announced v1 1578009600000000000 1578009600000000000 listed))) \<and>
   delete_request ''u'' ''i'' ''jwt'' (Name v4) \<notin>
     set (sent (println [Str ''unable to perform delete request:'',
                         Err ''connection reset by peer'']
                  (after_delete ''u'' ''i'' ''jwt'' v1 1578009600000000000
                     (announced v1 1578009600000000000 1578009600000000000 listed))))"
proof -
  have a: "List (demo_env delete_fails) ''jwt'' page1_url [] logged_in =
     Some (None, [v1, v2, v3, v4], listed)"
    unfolding delete_fails_def by (rule demo_listing)
  have l: "main_authenticate (demo_env delete_fails) demo_flags demo_state =
     (Inr (86400000000000, jwt), logged_in)"
    unfolding delete_fails_def by (rule demo_login)
  have r: "reap (demo_env delete_fails) ''u'' ''i'' ''jwt'' 86400000000000 [v1, v2, v3, v4] listed =
     (Some 1, println [Str ''unable to perform delete request:'', Err ''connection reset by peer'']
                (after_delete ''u'' ''i'' ''jwt'' v1 1578009600000000000
                   (announced v1 1578009600000000000 1578009600000000000 listed)))"
    by (simp add: demo_defs run_defs delete_fails_def announced_def after_delete_def)
  have m: "main (demo_env delete_fails) demo_flags demo_state =
     Some (1, println [Str ''unable to perform delete request:'', Err ''connection reset by peer'']
                (after_delete ''u'' ''i'' ''jwt'' v1 1578009600000000000
                   (announced v1 1578009600000000000 1578009600000000000 listed)))"
  proof -
    have t: "Token jwt = ''jwt''" "username demo_flags = ''u''" "image demo_flags = ''i''"
      by (simp_all add: jwt_def demo_flags_def)
    from a have "List (demo_env delete_fails) (Token jwt)
        (tags_url (username demo_flags) (image demo_flags)) [] logged_in =
          Some (None, [v1, v2, v3, v4], listed)"
      by (simp add: demo_tags_url jwt_def)
    from main_listed [OF l this] show ?thesis
      by (simp only: t r option.case prod.case)
  qed
  have s: "delete_request ''u'' ''i'' ''jwt'' (Name v4) \<notin>
     set (sent (println [Str ''unable to perform delete request:'',
                         Err ''connection reset by peer'']
                  (after_delete ''u'' ''i'' ''jwt'' v1 1578009600000000000
                     (announced v1 1578009600000000000 1578009600000000000 listed))))"
    by (simp add: demo_defs run_defs announced_def after_delete_def)
  from a v4_is_old m s show ?thesis by simp
qed

subsection \<open>Time.UnmarshalJSON\<close>

text \<open>
  C10. \<^verbatim>\<open>time.Parse\<close> does not accept the empty string. Then: when the input is a JSON
  string that \<^verbatim>\<open>time.Parse\<close> accepts, \<^verbatim>\<open>Time.UnmarshalJSON\<close> returns no error and the
  receiver holds the parsed instant; in every other case (the input is not JSON, is
  another kind of value, \<^verbatim>\<open>null\<close> included, or is a string that \<^verbatim>\<open>time.Parse\<close> rejects)
  it returns an error and the receiver is as before.
\<close>

theorem Time_UnmarshalJSON_result:
  assumes "isl (parse [])"
  shows "(\<forall>s tt. data = JSON (JString s) \<and> parse s = Inr tt \<longrightarrow>
            Time_UnmarshalJSON parse data t = (None, tt)) \<and>
         ((\<forall>s tt. \<not> (data = JSON (JString s) \<and> parse s = Inr tt)) \<longrightarrow>
            (\<exists>err. Time_UnmarshalJSON parse data t = (Some err, t)))"
proof (cases data)
  case NotJSON
  then show ?thesis by (simp add: Time_UnmarshalJSON_def go_Unmarshal_string_def)
next
  case (JSON v)
  from assms obtain e where e: "parse [] = Inl e" by (cases "parse []") simp_all
  show ?thesis
  proof (cases v)
    case (JString s)
    with JSON show ?thesis
      by (cases "parse s") (simp_all add: Time_UnmarshalJSON_def go_Unmarshal_string_def)
  qed (simp_all add: JSON e Time_UnmarshalJSON_def go_Unmarshal_string_def saveError_def)
qed

theorem Time_UnmarshalJSON_result_witness:
  "isl (demo_Parse []) \<and>
   Time_UnmarshalJSON demo_Parse (JSON (JString ''2020-01-01T00:00:00Z'')) 0 =
     (None, 1577836800000000000) \<and>
   (\<exists>err. Time_UnmarshalJSON demo_Parse (JSON (JString ''yesterday'')) 0 = (Some err, 0)) \<and>
   (\<exists>err. Time_UnmarshalJSON demo_Parse (JSON JNull) 0 = (Some err, 0)) \<and>
   (\<exists>err. Time_UnmarshalJSON demo_Parse (JSON (JNumber ''1577836800'')) 0 = (Some err, 0))"
proof -
  have h: "isl (demo_Parse [])" by (simp add: demo_Parse_def)
  have p: "demo_Parse ''2020-01-01T00:00:00Z'' = Inr 1577836800000000000"
    by (simp add: demo_Parse_def)
  have q: "\<forall>s tt. \<not> (JSON (JString ''yesterday'') = JSON (JString s) \<and> demo_Parse s = Inr tt)"
    by (simp add: demo_Parse_def)
  from Time_UnmarshalJSON_result [where parse = demo_Parse and data = "JSON (JString ''2020-01-01T00:00:00Z'')"
      and t = 0, OF h] p
  have a: "Time_UnmarshalJSON demo_Parse (JSON (JString ''2020-01-01T00:00:00Z'')) 0 =
     (None, 1577836800000000000)" by blast
  from Time_UnmarshalJSON_result [where parse = demo_Parse and data = "JSON (JString ''yesterday'')" and t = 0, OF h] q
  have b: "\<exists>err. Time_UnmarshalJSON demo_Parse (JSON (JString ''yesterday'')) 0 = (Some err, 0)"
    by blast
  from Time_UnmarshalJSON_result [where parse = demo_Parse and data = "JSON JNull" and t = 0, OF h]
  have c: "\<exists>err. Time_UnmarshalJSON demo_Parse (JSON JNull) 0 = (Some err, 0)"
    by simp
  from Time_UnmarshalJSON_result [where parse = demo_Parse and data = "JSON (JNumber ''1577836800'')" and t = 0, OF h]
  have d: "\<exists>err. Time_UnmarshalJSON demo_Parse (JSON (JNumber ''1577836800'')) 0 = (Some err, 0)"
    by simp
  from h a b c d show ?thesis by blast
qed

subsection \<open>From untyped records to the TagList\<close>

text \<open>
  Decoding what the encoder wrote for an untyped value: into a string, into a
  \<^verbatim>\<open>Time\<close>, into a \<^verbatim>\<open>Tag\<close> and into a \<^verbatim>\<open>TagList\<close>. Without an error, the target
  holds what \<open>last_string\<close>, \<open>last_instant\<close> and \<open>tag_of_record\<close> say.
\<close>

lemma saveError_None [simp]: "saveError err saved \<noteq> None"
  by (simp add: saveError_def split: option.split)













end
